theory Spec2Isabelle
  imports Main "HOL-Library.Char_ord" "HOL-Library.List_Lexorder" "HOL-Library.AList"
begin

section \<open>Python values used by OrganizeMedia.py\<close>

text \<open>
  Strings are lists of characters, each character standing for one code point below 256.
  Exceptions are values of the type \<open>error\<close>; a function that can raise returns
  \<open>error + 'a\<close>, with \<open>Inl\<close> for the exception that leaves it.
  \<open>SystemExit n\<close> is what \<^verbatim>\<open>sys.exit(n)\<close> raises.
\<close>

datatype error =
    SystemExit int
  | IndexError
  | KeyError string
  | UnboundLocalError string
  | EOFError
  | OSError string

text \<open>\<^verbatim>\<open>xs[i]\<close> for a non-negative index: raises IndexError out of range.\<close>

definition index :: "'a list \<Rightarrow> nat \<Rightarrow> error + 'a" where
  "index xs i = (if i < length xs then Inr (xs ! i) else Inl IndexError)"

text \<open>
  \<^verbatim>\<open>s.split(sep)\<close> for a separator of one character: the string is cut at every
  occurrence of the separator, empty pieces are kept, and the result always has at least
  one piece.
\<close>

fun split_on :: "char \<Rightarrow> string \<Rightarrow> string list" where
  "split_on sep [] = [[]]"
| "split_on sep (c # cs) =
     (if c = sep then [] # split_on sep cs
      else (case split_on sep cs of
              [] \<Rightarrow> [[c]]
            | t # ts \<Rightarrow> (c # t) # ts))"

text \<open>
  The characters that \<^verbatim>\<open>str.isspace\<close> accepts among the code points below 256:
  tab to carriage return, the four separators 28 to 31, the space, and the code points
  133 and 160.
\<close>

definition is_space :: "char \<Rightarrow> bool" where
  "is_space c =
     (let n = (of_char c :: nat)
      in (9 \<le> n \<and> n \<le> 13) \<or> (28 \<le> n \<and> n \<le> 32) \<or> n = 133 \<or> n = 160)"

text \<open>
  \<^verbatim>\<open>s.split()\<close> without a separator: the pieces are the maximal runs of characters
  that are not white space; the result is empty when there is no such character.
\<close>

fun split_ws :: "string \<Rightarrow> string list" where
  "split_ws [] = []"
| "split_ws (c # cs) =
     (if is_space c then split_ws cs
      else (case cs of
              [] \<Rightarrow> [[c]]
            | d # _ \<Rightarrow>
                if is_space d then [c] # split_ws cs
                else (case split_ws cs of
                        [] \<Rightarrow> [[c]]
                      | t # ts \<Rightarrow> (c # t) # ts)))"

text \<open>\<^verbatim>\<open>s.strip()\<close>: white space removed at both ends.\<close>

definition strip :: "string \<Rightarrow> string" where
  "strip s = rev (dropWhile is_space (rev (dropWhile is_space s)))"

text \<open>The decimal text of a natural number, as an f-string prints \<^verbatim>\<open>len(...)\<close>.\<close>

definition digit_char :: "nat \<Rightarrow> char" where
  "digit_char d = char_of (48 + d)"

fun str_nat :: "nat \<Rightarrow> string" where
  "str_nat n = (if n < 10 then [digit_char n] else str_nat (n div 10) @ [digit_char (n mod 10)])"

declare str_nat.simps [simp del]

section \<open>The classifier: \<^verbatim>\<open>find_media_in_dir\<close>\<close>

definition photo_types :: "string list" where
  "photo_types = [''jpg'', ''png'']"

definition video_types :: "string list" where
  "video_types = [''mp4'']"

text \<open>
  The loop of \<^verbatim>\<open>find_media_in_dir\<close>, with the two result lists as accumulators.
  \<^verbatim>\<open>tokens[-1]\<close> is \<open>last tokens\<close>: \<open>split_on\<close> never returns the empty list
  (lemma \<open>split_on_not_Nil\<close> below), so the index is always in range.
\<close>

fun find_media_loop :: "string list \<Rightarrow> string list \<Rightarrow> string list \<Rightarrow> string list \<times> string list" where
  "find_media_loop [] photo_media video_media = (photo_media, video_media)"
| "find_media_loop (file_name # files) photo_media video_media =
     (let tokens = split_on CHR ''.'' file_name
      in if last tokens \<in> set photo_types
           then find_media_loop files (photo_media @ [file_name]) video_media
         else if last tokens \<in> set video_types
           then find_media_loop files photo_media (video_media @ [file_name])
         else find_media_loop files photo_media video_media)"

definition find_media_in_dir :: "string list \<Rightarrow> string list \<times> string list" where
  "find_media_in_dir files = find_media_loop files [] []"

section \<open>The world outside the program\<close>

text \<open>
  What the program reads from outside is an environment: the answer of
  \<^verbatim>\<open>os.listdir\<close>, of \<^verbatim>\<open>Image.open\<close> and of \<^verbatim>\<open>ffmpeg.probe\<close> for each path
  (\<open>Inl\<close> carries the text of the exception they raise), and the working directory.
  An opened image is represented by what the program reads from it, its EXIF table from tag
  number to value. A probed stream has its \<^verbatim>\<open>codec_type\<close> and, when the container
  carries tags at all, the dictionary under the key \<^verbatim>\<open>tags\<close>.

  The file system belongs to the environment too. Nothing is fixed about it: its states are
  the values of a type \<open>'fs\<close>, and the environment says what \<^verbatim>\<open>os.path.exists\<close> answers
  in a state, and what \<^verbatim>\<open>os.makedirs\<close> and \<^verbatim>\<open>shutil.move\<close> do to a state: they return
  the new state, or raise (\<open>Inl\<close>, with the text of the exception). What is proved below
  for every environment holds whatever these three library functions do.
\<close>

type_synonym exif = "nat \<rightharpoonup> string"

record stream =
  codec_type :: string
  tags :: "(string \<rightharpoonup> string) option"

record 'fs env =
  os_listdir :: "string \<Rightarrow> string + string list"
  Image_open :: "string \<Rightarrow> string + exif"
  ffmpeg_probe :: "string \<Rightarrow> string + stream list"
  os_getcwd :: string
  os_path_exists :: "'fs \<Rightarrow> string \<Rightarrow> bool"
  os_makedirs :: "string \<Rightarrow> 'fs \<Rightarrow> string + 'fs"
  shutil_move :: "string \<Rightarrow> string \<Rightarrow> 'fs \<Rightarrow> string + 'fs"

text \<open>
  What the program changes is a state: the state of the file system, the transaction
  dictionary (an association list in insertion order, as a Python dictionary keeps it), the
  lines still to be read from standard input, and the trace of what the program has done so
  far. The trace records, in the order they happen, every printed line, every prompt, every
  question to \<^verbatim>\<open>os.path.exists\<close> with its answer, every call of \<^verbatim>\<open>os.makedirs\<close> and of
  \<^verbatim>\<open>shutil.move\<close> (whether the call returns or raises), and every \<^verbatim>\<open>add_record\<close>.
  The progress bar of \<^verbatim>\<open>tqdm\<close> only iterates over its list and is left out.
\<close>

datatype event =
    Print string
  | PrintErr string
  | Prompt string
  | Exists string bool
  | MakeDirs string
  | Move string string
  | Record string string

type_synonym transaction_log = "(string \<times> string list) list"

record 'fs state =
  fs :: 'fs
  transactions :: transaction_log
  stdin :: "string list"
  trace :: "event list"

definition emit :: "event \<Rightarrow> 'fs state \<Rightarrow> 'fs state" where
  "emit e st = st\<lparr>trace := trace st @ [e]\<rparr>"

text \<open>
  \<^verbatim>\<open>input(prompt)\<close> shows the prompt and takes the next line; at the end of the input it
  raises EOFError.
\<close>

definition input :: "string \<Rightarrow> 'fs state \<Rightarrow> (error + string) \<times> 'fs state" where
  "input prompt st =
     (case stdin st of
        [] \<Rightarrow> (Inl EOFError, emit (Prompt prompt) st)
      | l # ls \<Rightarrow> (Inr l, (emit (Prompt prompt) st)\<lparr>stdin := ls\<rparr>))"

section \<open>The helpers of OrganizeMedia.py\<close>

definition DEFAULT_DEST :: string where
  "DEFAULT_DEST = ''Timestamp_Unavailable''"

text \<open>
  \<^verbatim>\<open>create_dir\<close>: the question to \<^verbatim>\<open>os.path.exists\<close>, and \<^verbatim>\<open>os.makedirs\<close> when the
  answer is no. An exception of \<^verbatim>\<open>os.makedirs\<close> is not caught.
\<close>

definition create_dir :: "'fs env \<Rightarrow> string \<Rightarrow> 'fs state \<Rightarrow> (error + unit) \<times> 'fs state" where
  "create_dir w filepath st =
     (let found = os_path_exists w (fs st) filepath;
          st1 = emit (Exists filepath found) st
      in if \<not> found
           then (case os_makedirs w filepath (fs st1) of
                   Inl e \<Rightarrow> (Inl (OSError e), emit (MakeDirs filepath) st1)
                 | Inr fs' \<Rightarrow> (Inr (), (emit (MakeDirs filepath) st1)\<lparr>fs := fs'\<rparr>))
         else (Inr (), st1))"

text \<open>\<^verbatim>\<open>move_media\<close>: an exception of \<^verbatim>\<open>shutil.move\<close> is not caught.\<close>

definition move_media ::
  "'fs env \<Rightarrow> string \<Rightarrow> string \<Rightarrow> string \<Rightarrow> 'fs state \<Rightarrow> (error + unit) \<times> 'fs state" where
  "move_media w file_dir media_file dest st =
     (let original = file_dir @ media_file;
          dest' = dest @ ''/'' @ media_file
      in case shutil_move w original dest' (fs st) of
           Inl e \<Rightarrow> (Inl (OSError e), emit (Move original dest') st)
         | Inr fs' \<Rightarrow> (Inr (), (emit (Move original dest') st)\<lparr>fs := fs'\<rparr>))"

text \<open>
  \<^verbatim>\<open>add_record\<close> on the dictionary itself; \<open>AList.update\<close> replaces the value of a
  key that is present and puts a new key last.
\<close>

definition add_record :: "transaction_log \<Rightarrow> string \<Rightarrow> string \<Rightarrow> transaction_log" where
  "add_record log media_file dest =
     (let val = (case map_of log dest of None \<Rightarrow> [] | Some v \<Rightarrow> v)
      in AList.update dest (val @ [media_file]) log)"

definition add_record_st :: "string \<Rightarrow> string \<Rightarrow> 'fs state \<Rightarrow> 'fs state" where
  "add_record_st media_file dest st =
     emit (Record dest media_file) (st\<lparr>transactions := add_record (transactions st) media_file dest\<rparr>)"

text \<open>
  \<^verbatim>\<open>pp_transactions\<close>: one printed message for each key, the keys in sorted order.
  \<^verbatim>\<open>sorted\<close> compares the items as pairs; the keys of a dictionary are distinct, so the
  keys alone decide the order.
\<close>

definition newline :: string where
  "newline = [char_of (10 :: nat)]"

definition pp_entry :: "string \<times> string list \<Rightarrow> string" where
  "pp_entry kv =
     (case kv of (k, v) \<Rightarrow>
        foldl (\<lambda>msg val. msg @ newline @ ''    '' @ val) (newline @ k @ '':'') v)"

definition pp_transactions :: "transaction_log \<Rightarrow> 'fs state \<Rightarrow> 'fs state" where
  "pp_transactions log st =
     foldl (\<lambda>s kv. emit (Print (pp_entry kv)) s) st (sort_key fst log)"

definition generate_date_dir ::
  "string \<Rightarrow> string \<Rightarrow> string \<Rightarrow> string \<Rightarrow> 'fs state \<Rightarrow> (error + string) \<times> 'fs state" where
  "generate_date_dir source_dir year month dir_layout st =
     (if dir_layout = ''month'' then (Inr (source_dir @ month), st)
      else if dir_layout = ''year'' then (Inr (source_dir @ year), st)
      else if dir_layout = ''year_month'' then (Inr (source_dir @ year @ ''_'' @ month), st)
      else if dir_layout = ''year/month'' then (Inr (source_dir @ year @ ''/'' @ month), st)
      else (Inl (SystemExit 1), emit (Print ''Invalid dir_layout provided'') st))"

section \<open>The two processing loops\<close>

text \<open>
  The three calls that end the body of both loops: \<^verbatim>\<open>create_dir(date_dir)\<close>, then
  \<^verbatim>\<open>move_media(source_dir, file, date_dir)\<close>, then
  \<^verbatim>\<open>add_record(transactions, file, date_dir)\<close>. An exception of the first or of the
  second call leaves the loop at once.
\<close>

definition place_file ::
  "'fs env \<Rightarrow> string \<Rightarrow> string \<Rightarrow> string \<Rightarrow> 'fs state \<Rightarrow> (error + unit) \<times> 'fs state" where
  "place_file w source_dir media_file date_dir st =
     (case create_dir w date_dir st of
        (Inl e, st1) \<Rightarrow> (Inl e, st1)
      | (Inr u, st1) \<Rightarrow>
          (case move_media w source_dir media_file date_dir st1 of
             (Inl e, st2) \<Rightarrow> (Inl e, st2)
           | (Inr u', st2) \<Rightarrow> (Inr (), add_record_st media_file date_dir st2)))"

text \<open>
  The \<^verbatim>\<open>try\<close> block of \<^verbatim>\<open>video_copy_n_sort\<close>. The two dictionary look-ups raise
  KeyError on a missing key, \<^verbatim>\<open>tokens[1]\<close> raises IndexError when the text has no
  \<^verbatim>\<open>-\<close>; the arguments of \<^verbatim>\<open>generate_date_dir\<close> are evaluated before the call.
\<close>

definition video_try_body ::
  "stream \<Rightarrow> string \<Rightarrow> string \<Rightarrow> 'fs state \<Rightarrow> (error + string) \<times> 'fs state" where
  "video_try_body video_stream source_dir dir_layout st =
     (case tags video_stream of
        None \<Rightarrow> (Inl (KeyError ''tags''), st)
      | Some tg \<Rightarrow>
          (case tg ''creation_time'' of
             None \<Rightarrow> (Inl (KeyError ''creation_time''), st)
           | Some creation_time \<Rightarrow>
               (let tokens = split_on CHR ''-'' creation_time
                in case index tokens 0 of
                     Inl e \<Rightarrow> (Inl e, st)
                   | Inr year \<Rightarrow>
                       (case index tokens 1 of
                          Inl e \<Rightarrow> (Inl e, st)
                        | Inr month \<Rightarrow> generate_date_dir source_dir year month dir_layout st))))"

text \<open>The whole \<^verbatim>\<open>try\<close> statement: \<^verbatim>\<open>except IndexError\<close> catches that exception only.\<close>

definition video_date_dir ::
  "stream \<Rightarrow> string \<Rightarrow> string \<Rightarrow> string \<Rightarrow> 'fs state \<Rightarrow> (error + string) \<times> 'fs state" where
  "video_date_dir video_stream source_dir dir_layout default_dir st =
     (case video_try_body video_stream source_dir dir_layout st of
        (Inl IndexError, st1) \<Rightarrow> (Inr default_dir, st1)
      | r \<Rightarrow> r)"

fun video_copy_n_sort ::
  "'fs env \<Rightarrow> string list \<Rightarrow> string \<Rightarrow> string \<Rightarrow> 'fs state \<Rightarrow> (error + unit) \<times> 'fs state" where
  "video_copy_n_sort w [] source_dir dir_layout st = (Inr (), st)"
| "video_copy_n_sort w (vid # videos) source_dir dir_layout st =
     (let default_dir = source_dir @ DEFAULT_DEST;
          vid_location = source_dir @ vid
      in case ffmpeg_probe w vid_location of
           Inl stderr \<Rightarrow> (Inl (SystemExit 1), emit (PrintErr stderr) st)
         | Inr streams \<Rightarrow>
             (case find (\<lambda>s. codec_type s = ''video'') streams of
                None \<Rightarrow> (Inl (SystemExit 1), emit (PrintErr ''No video stream found'') st)
              | Some video_stream \<Rightarrow>
                  (case video_date_dir video_stream source_dir dir_layout default_dir st of
                     (Inl e, st1) \<Rightarrow> (Inl e, st1)
                   | (Inr date_dir, st1) \<Rightarrow>
                       (case place_file w source_dir vid date_dir st1 of
                          (Inl e, st2) \<Rightarrow> (Inl e, st2)
                        | (Inr u, st2) \<Rightarrow>
                            video_copy_n_sort w videos source_dir dir_layout st2))))"

text \<open>
  The part of the photo loop that reads the timestamp: \<^verbatim>\<open>time_tokens[0]\<close> and
  \<^verbatim>\<open>date[1]\<close> raise IndexError out of range, and nothing catches it there.
\<close>

definition img_date_dir ::
  "exif \<Rightarrow> string \<Rightarrow> string \<Rightarrow> string \<Rightarrow> 'fs state \<Rightarrow> (error + string) \<times> 'fs state" where
  "img_date_dir exif source_dir dir_layout default_dir st =
     (case exif 306 of
        None \<Rightarrow> (Inr default_dir, st)
      | Some timestamp \<Rightarrow>
          (let time_tokens = split_ws timestamp
           in case index time_tokens 0 of
                Inl e \<Rightarrow> (Inl e, st)
              | Inr t0 \<Rightarrow>
                  (let date = split_on CHR '':'' t0
                   in case index date 0 of
                        Inl e \<Rightarrow> (Inl e, st)
                      | Inr year \<Rightarrow>
                          (case index date 1 of
                             Inl e \<Rightarrow> (Inl e, st)
                           | Inr month \<Rightarrow>
                               generate_date_dir source_dir year month dir_layout st))))"

text \<open>
  The loop of \<^verbatim>\<open>img_copy_n_sort\<close>. The local variable \<^verbatim>\<open>img_file\<close> lives across
  the iterations: it is \<open>None\<close> while nothing has been assigned to it, and after a failed
  \<^verbatim>\<open>Image.open\<close> it still holds what the last successful one assigned. The handler of
  IOError prints and falls through to the statements after the \<^verbatim>\<open>try\<close>; reading
  \<^verbatim>\<open>img_file\<close> while it is unassigned raises UnboundLocalError.
\<close>

fun img_loop ::
  "'fs env \<Rightarrow> string list \<Rightarrow> string \<Rightarrow> string \<Rightarrow> exif option \<Rightarrow> 'fs state \<Rightarrow> (error + unit) \<times> 'fs state" where
  "img_loop w [] source_dir dir_layout img_file st = (Inr (), st)"
| "img_loop w (pic # jpg_files) source_dir dir_layout img_file st =
     (let default_dir = source_dir @ DEFAULT_DEST;
          (img_file1, st1) =
            (case Image_open w (source_dir @ pic) of
               Inr img \<Rightarrow> (Some img, st)
             | Inl e \<Rightarrow> (img_file, emit (Print (''Invalid Image: '' @ e)) st))
      in case img_file1 of
           None \<Rightarrow> (Inl (UnboundLocalError ''img_file''), st1)
         | Some exif \<Rightarrow>
             (case img_date_dir exif source_dir dir_layout default_dir st1 of
                (Inl e, st2) \<Rightarrow> (Inl e, st2)
              | (Inr date_dir, st2) \<Rightarrow>
                  (case place_file w source_dir pic date_dir st2 of
                     (Inl e, st3) \<Rightarrow> (Inl e, st3)
                   | (Inr u, st3) \<Rightarrow>
                       img_loop w jpg_files source_dir dir_layout img_file1 st3)))"

definition img_copy_n_sort ::
  "'fs env \<Rightarrow> string list \<Rightarrow> string \<Rightarrow> string \<Rightarrow> 'fs state \<Rightarrow> (error + unit) \<times> 'fs state" where
  "img_copy_n_sort w jpg_files source_dir dir_layout st =
     img_loop w jpg_files source_dir dir_layout None st"

section \<open>The session: \<^verbatim>\<open>main\<close> and the script\<close>

definition confirm_prompt :: string where
  "confirm_prompt = newline @ ''Would you like to sort these images? (y/n): ''"

definition layout_prompt :: string where
  "layout_prompt =
     newline @ ''Which directory layout would you prefer?:'' @ newline
     @ ''            year (y), month (m), year_month? (y_m), or year/month (y/m): ''"

text \<open>
  The two loops that ask the operator. Each turn consumes one line of the input, so they end
  on every finite input: with the answer, with the exit, or with EOFError.
\<close>

function confirm_loop :: "'fs state \<Rightarrow> (error + unit) \<times> 'fs state" where
  "confirm_loop st =
     (case input confirm_prompt st of
        (Inl e, st1) \<Rightarrow> (Inl e, st1)
      | (Inr res, st1) \<Rightarrow>
          if strip res = ''y'' then (Inr (), st1)
          else if strip res = ''n''
            then (Inl (SystemExit 1), emit (Print ''Abort recieved, no images moved.'') st1)
          else confirm_loop st1)"
  by pat_completeness auto
termination
  by (relation "measure (\<lambda>st. length (stdin st))")
     (auto simp: input_def emit_def split: list.splits)

function layout_loop :: "'fs state \<Rightarrow> (error + string) \<times> 'fs state" where
  "layout_loop st =
     (case input layout_prompt st of
        (Inl e, st1) \<Rightarrow> (Inl e, st1)
      | (Inr res, st1) \<Rightarrow>
          if strip res = ''y'' then (Inr ''year'', st1)
          else if strip res = ''m'' then (Inr ''month'', st1)
          else if strip res = ''y_m'' then (Inr ''year_month'', st1)
          else if strip res = ''y/m'' then (Inr ''year/month'', st1)
          else layout_loop (emit (Print ''Invalid input, please try again.'') st1))"
  by pat_completeness auto
termination
  by (relation "measure (\<lambda>st. length (stdin st))")
     (auto simp: input_def emit_def split: list.splits)

declare confirm_loop.simps [simp del]
declare layout_loop.simps [simp del]

definition main :: "'fs env \<Rightarrow> string \<Rightarrow> 'fs state \<Rightarrow> (error + unit) \<times> 'fs state" where
  "main w source_dir st =
     (case os_listdir w source_dir of
        Inl e \<Rightarrow> (Inr (), emit (Print (''Non-Valid Directory: '' @ e)) st)
      | Inr arr \<Rightarrow>
          (case find_media_in_dir arr of (imgs, videos) \<Rightarrow>
             if length imgs = 0 \<and> length videos = 0
               then (Inl (SystemExit 1),
                     emit (Print (''No Media found in '' @ os_getcwd w @ ''/'' @ source_dir @ ''!'')) st)
             else
               (let msg = str_nat (length imgs) @ '' images and '' @ str_nat (length videos)
                          @ '' videos found in '' @ os_getcwd w @ ''/'' @ source_dir;
                    st0 = emit (Print msg) st
                in case confirm_loop st0 of
                     (Inl e, st1) \<Rightarrow> (Inl e, st1)
                   | (Inr u, st1) \<Rightarrow>
                       (case layout_loop st1 of
                          (Inl e, st2) \<Rightarrow> (Inl e, st2)
                        | (Inr dir_layout, st2) \<Rightarrow>
                            (case img_copy_n_sort w imgs source_dir dir_layout
                                    (st2\<lparr>transactions := []\<rparr>) of
                               (Inl e, st3) \<Rightarrow> (Inl e, st3)
                             | (Inr u1, st3) \<Rightarrow>
                                 (case video_copy_n_sort w videos source_dir dir_layout st3 of
                                    (Inl e, st4) \<Rightarrow> (Inl e, st4)
                                  | (Inr u2, st4) \<Rightarrow>
                                      (Inr (), pp_transactions (transactions st4) st4)))))))"

text \<open>
  The block under \<^verbatim>\<open>__main__\<close>, and the exit status of the process: 0 when the script
  runs to its end, the argument of \<^verbatim>\<open>sys.exit\<close>, and 1 for any other exception that
  nothing catches.
\<close>

definition script :: "'fs env \<Rightarrow> string list \<Rightarrow> 'fs state \<Rightarrow> (error + unit) \<times> 'fs state" where
  "script w argv st =
     (case index argv 1 of
        Inr a \<Rightarrow> main w a st
      | Inl e \<Rightarrow>
          main w ''/''
            (emit (Print ''Optional path not given, current directory used as default.'') st))"

fun exit_status :: "error + 'a \<Rightarrow> int" where
  "exit_status (Inr u) = 0"
| "exit_status (Inl (SystemExit n)) = n"
| "exit_status (Inl e) = 1"

section \<open>Notions used to state the properties\<close>

text \<open>Two strings differ only in letter case: they are different, and equal once the
  letters A to Z are replaced by a to z.\<close>

definition lower_char :: "char \<Rightarrow> char" where
  "lower_char c =
     (let n = (of_char c :: nat) in if 65 \<le> n \<and> n \<le> 90 then char_of (n + 32) else c)"

definition differs_only_in_case :: "string \<Rightarrow> string \<Rightarrow> bool" where
  "differs_only_in_case s t \<longleftrightarrow> s \<noteq> t \<and> map lower_char s = map lower_char t"

text \<open>An event that moves or records the file \<open>f\<close> of the directory \<open>source_dir\<close>.\<close>

fun moves_or_records :: "string \<Rightarrow> string \<Rightarrow> event \<Rightarrow> bool" where
  "moves_or_records source_dir f (Move original dest) = (original = source_dir @ f)"
| "moves_or_records source_dir f (Record dest g) = (g = f)"
| "moves_or_records source_dir f e = False"

text \<open>
  The order of the calls made for the files, read off a trace by a small automaton. Between
  two files it is idle, and lines may be printed. For one file it sees the question to
  \<^verbatim>\<open>os.path.exists\<close> on a destination \<open>d\<close>; after the answer no it must see
  \<^verbatim>\<open>os.makedirs\<close> on \<open>d\<close>; after the answer yes, or after that call, it must see
  \<^verbatim>\<open>shutil.move\<close> of a file \<open>f\<close> of the source directory to \<open>d/f\<close>; then it must see the
  record of \<open>f\<close> under \<open>d\<close>, and is idle again. Any other event is out of order.
\<close>

datatype phase = Idle | Asked string | Found string | Made string | Moving string string

fun step_phase :: "string \<Rightarrow> phase \<Rightarrow> event \<Rightarrow> phase option" where
  "step_phase source_dir Idle (Print m) = Some Idle"
| "step_phase source_dir Idle (PrintErr m) = Some Idle"
| "step_phase source_dir Idle (Exists d found) = Some (if found then Found d else Asked d)"
| "step_phase source_dir (Asked d) (MakeDirs p) = (if p = d then Some (Made d) else None)"
| "step_phase source_dir (Found d) (Move a b) =
     (if take (length source_dir) a = source_dir
         \<and> b = d @ ''/'' @ drop (length source_dir) a
        then Some (Moving d (drop (length source_dir) a))
      else None)"
| "step_phase source_dir (Made d) (Move a b) =
     (if take (length source_dir) a = source_dir
         \<and> b = d @ ''/'' @ drop (length source_dir) a
        then Some (Moving d (drop (length source_dir) a))
      else None)"
| "step_phase source_dir (Moving d f) (Record d' f') =
     (if d' = d \<and> f' = f then Some Idle else None)"
| "step_phase source_dir ph e = None"

fun run_phases :: "string \<Rightarrow> phase \<Rightarrow> event list \<Rightarrow> phase option" where
  "run_phases source_dir ph [] = Some ph"
| "run_phases source_dir ph (e # es) =
     (case step_phase source_dir ph e of
        None \<Rightarrow> None
      | Some ph' \<Rightarrow> run_phases source_dir ph' es)"

text \<open>
  A trace is in order when the automaton reads it to its end. It may end in the middle of a
  file, after a call of \<^verbatim>\<open>os.makedirs\<close> or of \<^verbatim>\<open>shutil.move\<close> (the call that raised),
  but not right after an answer of \<^verbatim>\<open>os.path.exists\<close>.
\<close>

fun accepted :: "phase option \<Rightarrow> bool" where
  "accepted None = False"
| "accepted (Some (Asked d)) = False"
| "accepted (Some (Found d)) = False"
| "accepted (Some ph) = True"

text \<open>A result that is an exception of the operating system.\<close>

fun is_os_error :: "error + 'a \<Rightarrow> bool" where
  "is_os_error (Inl (OSError m)) = True"
| "is_os_error r = False"


text \<open>The files recorded by a trace, and the records themselves as pairs of destination
  and file, in the order of the trace.\<close>

fun recorded_calls :: "event list \<Rightarrow> (string \<times> string) list" where
  "recorded_calls [] = []"
| "recorded_calls (Record d f # es) = (d, f) # recorded_calls es"
| "recorded_calls (e # es) = recorded_calls es"

definition recorded_files :: "event list \<Rightarrow> string list" where
  "recorded_files es = map snd (recorded_calls es)"

text \<open>A sequence of calls \<^verbatim>\<open>add_record(transactions, filename, destination)\<close>, given as
  pairs of destination and file name, applied to a dictionary from left to right.\<close>

definition record_all :: "(string \<times> string) list \<Rightarrow> transaction_log \<Rightarrow> transaction_log" where
  "record_all calls log = foldl (\<lambda>l c. add_record l (snd c) (fst c)) log calls"

text \<open>
  The calls of \<^verbatim>\<open>os.makedirs\<close> and \<^verbatim>\<open>shutil.move\<close> of a trace, made again on a state of
  the file system, from left to right; a call that raises leaves the state as it is.
\<close>

fun replay_call :: "'fs env \<Rightarrow> 'fs \<Rightarrow> event \<Rightarrow> 'fs" where
  "replay_call w t (MakeDirs p) = (case os_makedirs w p t of Inl e \<Rightarrow> t | Inr t' \<Rightarrow> t')"
| "replay_call w t (Move a b) = (case shutil_move w a b t of Inl e \<Rightarrow> t | Inr t' \<Rightarrow> t')"
| "replay_call w t e = t"

definition replay_os :: "'fs env \<Rightarrow> event list \<Rightarrow> 'fs \<Rightarrow> 'fs" where
  "replay_os w es t = foldl (replay_call w) t es"

text \<open>
  Between the states \<open>st\<close> and \<open>st'\<close> only files of the list \<open>files\<close> were moved or
  recorded: every move and every record of the later trace is an event of the earlier
  trace, or it moves or records a file of the list.
\<close>

fun is_file_step :: "event \<Rightarrow> bool" where
  "is_file_step (Move original dest) = True"
| "is_file_step (Record dest f) = True"
| "is_file_step e = False"

definition touches_only :: "string \<Rightarrow> string list \<Rightarrow> 'fs state \<Rightarrow> 'fs state \<Rightarrow> bool" where
  "touches_only source_dir files st st' \<longleftrightarrow>
     list_all (\<lambda>e. is_file_step e \<longrightarrow>
                    e \<in> set (trace st) \<or> list_ex (\<lambda>f. moves_or_records source_dir f e) files)
              (trace st')"

text \<open>An event that only prints.\<close>

fun is_print :: "event \<Rightarrow> bool" where
  "is_print (Print m) = True"
| "is_print (PrintErr m) = True"
| "is_print e = False"

text \<open>
  The state \<open>st\<close> after the events \<open>es\<close>: the trace is longer by them, the records among
  them are in the dictionary, the calls among them were made on the file system.
\<close>

definition state_after :: "'fs env \<Rightarrow> event list \<Rightarrow> 'fs state \<Rightarrow> 'fs state" where
  "state_after w es st =
     st\<lparr>fs := replay_os w es (fs st),
        transactions := record_all (recorded_calls es) (transactions st),
        trace := trace st @ es\<rparr>"

text \<open>
  What a run \<open>r\<close> of one of the two loops over \<open>files\<close>, started in \<open>st\<close>, adds: events in
  order, that move and record files of the list only, all of them when the loop returns,
  and the state that these events leave.
\<close>

definition adds ::
  "'fs env \<Rightarrow> string \<Rightarrow> string list \<Rightarrow> 'fs state \<Rightarrow> (error + unit) \<times> 'fs state \<Rightarrow> bool" where
  "adds w src files st r \<longleftrightarrow>
     (\<exists>es ph. snd r = state_after w es st
           \<and> run_phases src Idle es = Some ph \<and> accepted (Some ph)
           \<and> (ph = Idle \<or> is_os_error (fst r))
           \<and> (\<forall>e\<in>set es. is_file_step e \<longrightarrow> (\<exists>f\<in>set files. moves_or_records src f e))
           \<and> (fst r = Inr () \<longrightarrow> ph = Idle \<and> recorded_files es = files))"

section \<open>A small directory to run the program on\<close>

text \<open>
  A file system for the examples: a table from paths to what is there, a regular file or a
  directory. A path that the table does not hold does not exist.

  \<^verbatim>\<open>os.path.dirname\<close> is the text before the last slash, without the slashes at its end
  unless it consists of slashes only; \<^verbatim>\<open>os.path.basename\<close> is the text after the last
  slash. The directories above a path are its beginnings that stand before a slash.
\<close>

datatype node = File | Dir

type_synonym tree = "string \<rightharpoonup> node"

definition dirname :: "string \<Rightarrow> string" where
  "dirname p =
     (let head = rev (dropWhile (\<lambda>c. c \<noteq> CHR ''/'') (rev p))
      in if list_all (\<lambda>c. c = CHR ''/'') head then head
         else rev (dropWhile (\<lambda>c. c = CHR ''/'') (rev head)))"

definition basename :: "string \<Rightarrow> string" where
  "basename p = rev (takeWhile (\<lambda>c. c \<noteq> CHR ''/'') (rev p))"

fun dirs_above_from :: "string \<Rightarrow> string \<Rightarrow> string list" where
  "dirs_above_from seen [] = []"
| "dirs_above_from seen (c # cs) =
     (if c = CHR ''/'' \<and> seen \<noteq> [] \<and> last seen \<noteq> CHR ''/''
        then seen # dirs_above_from (seen @ [c]) cs
      else dirs_above_from (seen @ [c]) cs)"

definition dirs_above :: "string \<Rightarrow> string list" where
  "dirs_above p = dirs_above_from [] p"

text \<open>
  \<^verbatim>\<open>os.makedirs\<close> on the table: it raises on the empty path, on a path that exists, and
  when something above the path is a regular file; otherwise it makes the path and every
  missing directory above it.
  \<^verbatim>\<open>shutil.move\<close> of a regular file on the table: it raises when the file is not there,
  and when the directory of the destination is missing or is a regular file; a destination
  that is a directory takes the file under its own name, and raises when that name is
  taken; otherwise the file gets the destination as its new path.
\<close>

definition example_exists :: "tree \<Rightarrow> string \<Rightarrow> bool" where
  "example_exists t p \<longleftrightarrow> t p \<noteq> None"

definition example_makedirs :: "string \<Rightarrow> tree \<Rightarrow> string + tree" where
  "example_makedirs p t =
     (if p = [] then Inl ''[Errno 2] No such file or directory''
      else if t p \<noteq> None then Inl ''[Errno 17] File exists''
      else if list_ex (\<lambda>a. t a = Some File) (dirs_above p) then Inl ''[Errno 20] Not a directory''
      else Inr (foldl (\<lambda>t' a. t'(a \<mapsto> Dir)) t (dirs_above p @ [p])))"

definition example_move :: "string \<Rightarrow> string \<Rightarrow> tree \<Rightarrow> string + tree" where
  "example_move a b t =
     (case t a of
        None \<Rightarrow> Inl ''[Errno 2] No such file or directory''
      | Some n \<Rightarrow>
          (case (if dirname b = [] then Some Dir else t (dirname b)) of
             None \<Rightarrow> Inl ''[Errno 2] No such file or directory''
           | Some File \<Rightarrow> Inl ''[Errno 20] Not a directory''
           | Some Dir \<Rightarrow>
               (case t b of
                  Some Dir \<Rightarrow>
                    (if t (b @ ''/'' @ basename a) \<noteq> None
                       then Inl ''Destination path already exists''
                     else Inr (t(a := None, b @ ''/'' @ basename a \<mapsto> n)))
                | other \<Rightarrow> Inr (t(a := None, b \<mapsto> n)))))"

text \<open>
  A directory \<open>src\<close> that holds: \<^verbatim>\<open>a.jpg\<close> with the EXIF DateTime 2020:01:15 10:00:00,
  \<^verbatim>\<open>n.jpg\<close> with no DateTime tag, \<^verbatim>\<open>bad.jpg\<close> that is not an image, \<^verbatim>\<open>clip.mp4\<close>
  with an audio and a video stream and the creation time 2020-01-20, \<^verbatim>\<open>old.mp4\<close> whose
  video stream has tags but no creation time, \<^verbatim>\<open>raw.mp4\<close> whose creation time is written
  without dashes, \<^verbatim>\<open>photo.JPG\<close> and \<^verbatim>\<open>notes.txt\<close>. Any other directory cannot be
  listed.
\<close>

definition example_files :: "string list" where
  "example_files =
     [''a.jpg'', ''n.jpg'', ''bad.jpg'', ''clip.mp4'', ''old.mp4'', ''raw.mp4'',
      ''photo.JPG'', ''notes.txt'']"

definition example_exif :: "string \<Rightarrow> exif" where
  "example_exif ts = (\<lambda>t. if t = 306 then Some ts else None)"

definition example_video :: "(string \<times> string) list \<Rightarrow> stream list" where
  "example_video tg =
     [\<lparr>codec_type = ''audio'', tags = None\<rparr>,
      \<lparr>codec_type = ''video'', tags = Some (map_of tg)\<rparr>]"

definition example_env :: "string \<Rightarrow> tree env" where
  "example_env src =
     \<lparr>os_listdir = (\<lambda>p. if p = src then Inr example_files
                         else Inl ''[Errno 2] No such file or directory''),
      Image_open = (\<lambda>p. if p = src @ ''a.jpg'' then Inr (example_exif ''2020:01:15 10:00:00'')
                         else if p = src @ ''n.jpg'' then Inr Map.empty
                         else Inl ''cannot identify image file''),
      ffmpeg_probe = (\<lambda>p. if p = src @ ''clip.mp4''
                             then Inr (example_video
                                    [(''creation_time'', ''2020-01-20T09:30:00.000000Z'')])
                           else if p = src @ ''old.mp4''
                             then Inr (example_video [(''handler_name'', ''VideoHandler'')])
                           else if p = src @ ''raw.mp4''
                             then Inr (example_video [(''creation_time'', ''20200120'')])
                           else Inl ''ffprobe error''),
      os_getcwd = ''/home/user'',
      os_path_exists = example_exists,
      os_makedirs = example_makedirs,
      shutil_move = example_move\<rparr>"

definition example_tree :: "string \<Rightarrow> tree" where
  "example_tree src = map_of ((src, Dir) # map (\<lambda>f. (src @ f, File)) example_files)"

definition example_state :: "string \<Rightarrow> string list \<Rightarrow> tree state" where
  "example_state src lines =
     \<lparr>fs = example_tree src,
      transactions = [],
      stdin = lines,
      trace = []\<rparr>"


section \<open>Facts about the string primitives\<close>

lemma split_on_not_Nil: "split_on sep s \<noteq> []"
  by (induction s) (auto split: list.splits)

lemma split_on_no_sep: "sep \<notin> set s \<Longrightarrow> split_on sep s = [s]"
  by (induction s) auto

lemma split_on_append:
  "\<exists>t ts. split_on sep (stem @ sep # ext) = t # ts \<and> ts \<noteq> []
     \<and> last ts = last (split_on sep ext)"
  by (induction stem) (auto simp: split_on_not_Nil split: list.splits)

lemma last_split_on_append:
  "last (split_on sep (stem @ sep # ext)) = last (split_on sep ext)"
  using split_on_append [of sep stem ext] by auto

section \<open>The classifier\<close>

lemma find_media_loop_filter:
  "find_media_loop files ps vs =
     (ps @ filter (\<lambda>f. last (split_on CHR ''.'' f) \<in> set photo_types) files,
      vs @ filter (\<lambda>f. last (split_on CHR ''.'' f) \<notin> set photo_types
                        \<and> last (split_on CHR ''.'' f) \<in> set video_types) files)"
  by (induction files arbitrary: ps vs) (simp_all add: Let_def)

lemma find_media_in_dir_filter:
  "find_media_in_dir files =
     (filter (\<lambda>f. last (split_on CHR ''.'' f) \<in> {''jpg'', ''png''}) files,
      filter (\<lambda>f. last (split_on CHR ''.'' f) = ''mp4'') files)"
proof -
  have "(\<lambda>f. last (split_on CHR ''.'' f) \<notin> set photo_types
            \<and> last (split_on CHR ''.'' f) \<in> set video_types)
        = (\<lambda>f. last (split_on CHR ''.'' f) = ''mp4'')"
    by (auto simp: photo_types_def video_types_def)
  then show ?thesis
    by (simp add: find_media_in_dir_def find_media_loop_filter photo_types_def)
qed

text \<open>
  Claim C7, as the code has it. For every list of file names, \<^verbatim>\<open>find_media_in_dir\<close>
  returns two lists: the first is the input restricted to the names whose last piece between
  dots is jpg or png, the second is the input restricted to the names whose last piece is
  mp4, both in the order of the input; a name whose last piece is neither is in none of
  them. The last piece of a name is what follows its last dot, and the whole name when it
  has no dot: a name without dot is left out unless it is itself jpg, png or mp4.
\<close>

theorem find_media_in_dir_partitions:
  "find_media_in_dir files =
     (filter (\<lambda>f. last (split_on CHR ''.'' f) \<in> {''jpg'', ''png''}) files,
      filter (\<lambda>f. last (split_on CHR ''.'' f) = ''mp4'') files)
   \<and> (CHR ''.'' \<notin> set ext \<longrightarrow> last (split_on CHR ''.'' (stem @ CHR ''.'' # ext)) = ext)
   \<and> (CHR ''.'' \<notin> set name \<longrightarrow> last (split_on CHR ''.'' name) = name)"
  by (simp add: find_media_in_dir_filter last_split_on_append split_on_no_sep)

theorem find_media_in_dir_partitions_witness:
  "CHR ''.'' \<notin> set ''jpg'' \<and> CHR ''.'' \<notin> set ''README''
   \<and> find_media_in_dir [''a.jpg'', ''clip.mp4'', ''notes.txt'', ''b.tar.png'', ''README'']
       = ([''a.jpg'', ''b.tar.png''], [''clip.mp4''])
   \<and> last (split_on CHR ''.'' ''a.b.jpg'') = ''jpg''
   \<and> last (split_on CHR ''.'' ''README'') = ''README''"
  using find_media_in_dir_partitions
          [of "[''a.jpg'', ''clip.mp4'', ''notes.txt'', ''b.tar.png'', ''README'']"
              "''jpg''" "''a.b''" "''README''"]
  by simp

text \<open>
  The claim as the specification words it leaves every name without dot out of both lists.
  The names jpg, png and mp4 have no dot and are classified.
\<close>

theorem dotless_media_names_classified:
  "find_media_in_dir [''jpg'', ''png'', ''mp4''] = ([''jpg'', ''png''], [''mp4''])"
  by (simp add: find_media_in_dir_def photo_types_def video_types_def)

section \<open>The destination of a dated file\<close>

text \<open>
  Claim C4, as the code has it. \<^verbatim>\<open>generate_date_dir\<close> puts the tokens directly behind
  the text of the source directory and inserts no separator of its own: the month, the
  year, year and month joined by an underscore, or year and month joined by a slash, each
  token exactly as it was given. For a source directory written with its final slash,
  \<open>s/\<close>, and the tokens 2021 and 08 the four results are \<open>s/08\<close>, \<open>s/2021\<close>, \<open>s/2021_08\<close>
  and \<open>s/2021/08\<close>. The state is left as it was.
\<close>

theorem generate_date_dir_concatenates:
  "generate_date_dir source_dir year month ''month'' st = (Inr (source_dir @ month), st)
   \<and> generate_date_dir source_dir year month ''year'' st = (Inr (source_dir @ year), st)
   \<and> generate_date_dir source_dir year month ''year_month'' st
       = (Inr (source_dir @ year @ ''_'' @ month), st)
   \<and> generate_date_dir source_dir year month ''year/month'' st
       = (Inr (source_dir @ year @ ''/'' @ month), st)
   \<and> generate_date_dir (s @ ''/'') ''2021'' ''08'' ''month'' st = (Inr (s @ ''/08''), st)
   \<and> generate_date_dir (s @ ''/'') ''2021'' ''08'' ''year'' st = (Inr (s @ ''/2021''), st)
   \<and> generate_date_dir (s @ ''/'') ''2021'' ''08'' ''year_month'' st
       = (Inr (s @ ''/2021_08''), st)
   \<and> generate_date_dir (s @ ''/'') ''2021'' ''08'' ''year/month'' st
       = (Inr (s @ ''/2021/08''), st)"
  by (simp add: generate_date_dir_def)

text \<open>
  The claim as the specification words it, with a slash between the source directory and
  the month, fails for the source directory \<open>pics\<close>: the result is \<open>pics08\<close>.
\<close>

theorem generate_date_dir_no_separator:
  "fst (generate_date_dir ''pics'' ''2021'' ''08'' ''month'' (example_state ''pics'' []))
     = Inr ''pics08''
   \<and> fst (generate_date_dir ''pics'' ''2021'' ''08'' ''month'' (example_state ''pics'' []))
     \<noteq> Inr ''pics/08''"
  by (simp add: generate_date_dir_def)

section \<open>The steps of the two loops\<close>

lemma trace_emit: "trace (emit e st) = trace st @ [e]"
  by (simp add: emit_def)

lemma fs_emit: "fs (emit e st) = fs st"
  by (simp add: emit_def)

lemma create_dir_exists:
  "os_path_exists w (fs st) p \<Longrightarrow> create_dir w p st = (Inr (), emit (Exists p True) st)"
  by (simp add: create_dir_def Let_def)

lemma create_dir_missing:
  "\<not> os_path_exists w (fs st) p \<Longrightarrow>
   create_dir w p st =
     (case os_makedirs w p (fs st) of
        Inl e \<Rightarrow> (Inl (OSError e), emit (MakeDirs p) (emit (Exists p False) st))
      | Inr t \<Rightarrow> (Inr (), (emit (MakeDirs p) (emit (Exists p False) st))\<lparr>fs := t\<rparr>))"
  by (simp add: create_dir_def Let_def fs_emit)

lemma replay_os_append: "replay_os w (xs @ ys) t = replay_os w ys (replay_os w xs t)"
  by (simp add: replay_os_def)

lemma recorded_calls_append: "recorded_calls (xs @ ys) = recorded_calls xs @ recorded_calls ys"
  by (induction xs rule: recorded_calls.induct) auto

lemma recorded_files_append: "recorded_files (xs @ ys) = recorded_files xs @ recorded_files ys"
  by (simp add: recorded_files_def recorded_calls_append)

lemma record_all_append: "record_all (xs @ ys) log = record_all ys (record_all xs log)"
  by (simp add: record_all_def)

lemma run_phases_append:
  "run_phases src ph (xs @ ys) =
     (case run_phases src ph xs of None \<Rightarrow> None | Some ph' \<Rightarrow> run_phases src ph' ys)"
  by (induction xs arbitrary: ph) (auto split: option.splits)

lemma state_after_Nil: "state_after w [] st = st"
  by (simp add: state_after_def replay_os_def record_all_def)

lemma state_after_append:
  "state_after w (xs @ ys) st = state_after w ys (state_after w xs st)"
  by (simp add: state_after_def replay_os_append recorded_calls_append record_all_append)

lemma state_after_fields:
  "trace (state_after w es st) = trace st @ es"
  "fs (state_after w es st) = replay_os w es (fs st)"
  "transactions (state_after w es st) = record_all (recorded_calls es) (transactions st)"
  "stdin (state_after w es st) = stdin st"
  by (simp_all add: state_after_def)

lemma prints_replay: "list_all is_print ps \<Longrightarrow> replay_os w ps t = t"
  unfolding replay_os_def
  by (induction ps arbitrary: t) (auto elim: is_print.elims)

lemma prints_record_nothing: "list_all is_print ps \<Longrightarrow> recorded_calls ps = []"
  by (induction ps rule: recorded_calls.induct) auto

lemma prints_idle: "list_all is_print ps \<Longrightarrow> run_phases src Idle ps = Some Idle"
  by (induction ps) (auto elim: is_print.elims)

lemma prints_touch_nothing: "list_all is_print ps \<Longrightarrow> e \<in> set ps \<Longrightarrow> \<not> is_file_step e"
  by (cases e) (auto simp: list_all_iff)

lemma state_after_prints:
  "list_all is_print ps \<Longrightarrow> state_after w ps st = st\<lparr>trace := trace st @ ps\<rparr>"
  by (simp add: state_after_def prints_replay prints_record_nothing record_all_def)

lemma emit_is_after: "is_print e \<Longrightarrow> emit e st = state_after w [e] st"
  by (simp add: state_after_prints emit_def)

text \<open>What the three calls for one file add, in each of their five outcomes.\<close>

lemma place_file_after:
  assumes "place_file w src f d st = (r, st')"
  shows "\<exists>g ph. st' = state_after w g st
           \<and> run_phases src Idle g = Some ph \<and> accepted (Some ph)
           \<and> (ph = Idle \<or> is_os_error r)
           \<and> (\<forall>e\<in>set g. is_file_step e \<longrightarrow> moves_or_records src f e)
           \<and> (r = Inr () \<longrightarrow> ph = Idle \<and> recorded_calls g = [(d, f)])"
proof (cases "os_path_exists w (fs st) d")
  case True
  show ?thesis
  proof (cases "shutil_move w (src @ f) (d @ ''/'' @ f) (fs st)")
    case (Inl e)
    have "st' = state_after w [Exists d True, Move (src @ f) (d @ ''/'' @ f)] st"
      and "r = Inl (OSError e)"
      using assms True Inl
      by (auto simp: place_file_def create_dir_exists move_media_def Let_def emit_def
            state_after_def replay_os_def record_all_def)
    then show ?thesis
      by (intro exI [of _ "[Exists d True, Move (src @ f) (d @ ''/'' @ f)]"]
                exI [of _ "Moving d f"]) simp
  next
    case (Inr t)
    have "st' = state_after w [Exists d True, Move (src @ f) (d @ ''/'' @ f), Record d f] st"
      using assms True Inr
      by (auto simp: place_file_def create_dir_exists move_media_def Let_def emit_def
            add_record_st_def state_after_def replay_os_def record_all_def)
    then show ?thesis
      by (intro exI [of _ "[Exists d True, Move (src @ f) (d @ ''/'' @ f), Record d f]"]
                exI [of _ Idle]) simp
  qed
next
  case False
  show ?thesis
  proof (cases "os_makedirs w d (fs st)")
    case (Inl e)
    have "st' = state_after w [Exists d False, MakeDirs d] st" and "r = Inl (OSError e)"
      using assms False Inl
      by (auto simp: place_file_def create_dir_missing emit_def
            state_after_def replay_os_def record_all_def)
    then show ?thesis
      by (intro exI [of _ "[Exists d False, MakeDirs d]"] exI [of _ "Made d"]) simp
  next
    case mk: (Inr t1)
    show ?thesis
    proof (cases "shutil_move w (src @ f) (d @ ''/'' @ f) t1")
      case (Inl e)
      have "st' = state_after w [Exists d False, MakeDirs d, Move (src @ f) (d @ ''/'' @ f)] st"
        and "r = Inl (OSError e)"
        using assms False mk Inl
        by (auto simp: place_file_def create_dir_missing move_media_def Let_def emit_def
              state_after_def replay_os_def record_all_def)
      then show ?thesis
        by (intro exI [of _ "[Exists d False, MakeDirs d, Move (src @ f) (d @ ''/'' @ f)]"]
                  exI [of _ "Moving d f"]) simp
    next
      case (Inr t2)
      have "st' = state_after w
                    [Exists d False, MakeDirs d, Move (src @ f) (d @ ''/'' @ f), Record d f] st"
        using assms False mk Inr
        by (auto simp: place_file_def create_dir_missing move_media_def Let_def emit_def
              add_record_st_def state_after_def replay_os_def record_all_def)
      then show ?thesis
        by (intro exI [of _ "[Exists d False, MakeDirs d, Move (src @ f) (d @ ''/'' @ f),
                               Record d f]"] exI [of _ Idle]) simp
    qed
  qed
qed


lemma adds_done: "adds w src [] st (Inr (), st)"
  unfolding adds_def
  by (intro exI [of _ "[]"] exI [of _ Idle]) (simp add: state_after_Nil recorded_files_def)

lemma adds_abort:
  assumes "st' = state_after w ps st" and "list_all is_print ps" and "e \<noteq> Inr ()"
  shows "adds w src files st (e, st')"
  unfolding adds_def using assms
  by (intro exI [of _ ps] exI [of _ Idle]) (auto simp: prints_idle prints_touch_nothing)

lemma adds_abort_file:
  assumes pre: "st1 = state_after w ps st" "list_all is_print ps"
    and pf: "place_file w src f d st1 = (Inl e, st2)"
  shows "adds w src (f # files) st (Inl e, st2)"
proof -
  from place_file_after [OF pf] obtain g ph where g:
    "st2 = state_after w g st1" "run_phases src Idle g = Some ph" "accepted (Some ph)"
    "ph = Idle \<or> is_os_error (Inl e :: error + unit)"
    "\<forall>e\<in>set g. is_file_step e \<longrightarrow> moves_or_records src f e"
    by blast
  show ?thesis
    unfolding adds_def
    apply (intro exI [of _ "ps @ g"] exI [of _ ph])
    using g pre prints_touch_nothing [OF pre(2)]
    by (auto simp: state_after_append run_phases_append prints_idle)
qed

lemma adds_step:
  assumes pre: "st1 = state_after w ps st" "list_all is_print ps"
    and pf: "place_file w src f d st1 = (Inr (), st2)"
    and rest: "adds w src files st2 r"
  shows "adds w src (f # files) st r"
proof -
  from place_file_after [OF pf] obtain g where g:
    "st2 = state_after w g st1" "run_phases src Idle g = Some Idle"
    "\<forall>e\<in>set g. is_file_step e \<longrightarrow> moves_or_records src f e"
    "recorded_calls g = [(d, f)]"
    by auto
  from rest obtain es ph where es:
    "snd r = state_after w es st2" "run_phases src Idle es = Some ph" "accepted (Some ph)"
    "ph = Idle \<or> is_os_error (fst r)"
    "\<forall>e\<in>set es. is_file_step e \<longrightarrow> (\<exists>f\<in>set files. moves_or_records src f e)"
    "fst r = Inr () \<longrightarrow> ph = Idle \<and> recorded_files es = files"
    unfolding adds_def by blast
  show ?thesis
    unfolding adds_def
    apply (intro exI [of _ "ps @ g @ es"] exI [of _ ph])
    using g es pre prints_touch_nothing [OF pre(2)]
    by (auto simp: state_after_append run_phases_append prints_idle recorded_files_def
          recorded_calls_append prints_record_nothing)
qed

lemma generate_date_dir_after:
  "generate_date_dir src y m layout st = (r, st') \<Longrightarrow>
   \<exists>ps. st' = state_after w ps st \<and> list_all is_print ps"
proof -
  assume a: "generate_date_dir src y m layout st = (r, st')"
  then have "st' = st \<or> st' = emit (Print ''Invalid dir_layout provided'') st"
    by (auto simp: generate_date_dir_def split: if_splits)
  then show ?thesis
  proof
    assume "st' = st"
    then show ?thesis by (intro exI [of _ "[]"]) (simp add: state_after_Nil)
  next
    assume "st' = emit (Print ''Invalid dir_layout provided'') st"
    then show ?thesis
      by (intro exI [of _ "[Print ''Invalid dir_layout provided'']"])
         (simp add: emit_is_after [symmetric])
  qed
qed

lemma img_date_dir_after:
  "img_date_dir exif src layout dd st = (r, st') \<Longrightarrow>
   \<exists>ps. st' = state_after w ps st \<and> list_all is_print ps"
  using state_after_Nil [of w st] 
  by (auto simp: img_date_dir_def Let_def dest: generate_date_dir_after [where w = w]
           split: option.splits sum.splits intro: exI [of _ "[]"])

lemma video_date_dir_after:
  "video_date_dir vs src layout dd st = (r, st') \<Longrightarrow>
   \<exists>ps. st' = state_after w ps st \<and> list_all is_print ps"
  using state_after_Nil [of w st] 
  by (auto simp: video_date_dir_def video_try_body_def Let_def
           dest: generate_date_dir_after [where w = w]
           split: option.splits sum.splits prod.splits error.splits intro: exI [of _ "[]"])

lemma state_after_compose:
  "st1 = state_after w p1 st \<Longrightarrow> st2 = state_after w p2 st1 \<Longrightarrow>
   st2 = state_after w (p1 @ p2) st"
  by (simp add: state_after_append)

lemma img_loop_adds: "adds w src files st (img_loop w files src layout img st)"
proof (induction files arbitrary: img st)
  case Nil
  show ?case by (simp add: adds_done)
next
  case (Cons pic files)
  obtain img1 st1 where open1:
    "(case Image_open w (src @ pic) of
        Inr i \<Rightarrow> (Some i, st)
      | Inl e \<Rightarrow> (img, emit (Print (''Invalid Image: '' @ e)) st)) = (img1, st1)"
    by (cases "case Image_open w (src @ pic) of
        Inr i \<Rightarrow> (Some i, st)
      | Inl e \<Rightarrow> (img, emit (Print (''Invalid Image: '' @ e)) st)") auto
  then obtain p1 where p1: "st1 = state_after w p1 st" "list_all is_print p1"
  proof (cases "Image_open w (src @ pic)")
    case (Inl e)
    then have "st1 = state_after w [Print (''Invalid Image: '' @ e)] st"
      using open1 by (simp add: emit_is_after [symmetric])
    then show ?thesis using that by simp
  next
    case (Inr i)
    then have "st1 = state_after w [] st" using open1 by (simp add: state_after_Nil)
    then show ?thesis using that by simp
  qed
  show ?case
  proof (cases img1)
    case None
    then have "img_loop w (pic # files) src layout img st = (Inl (UnboundLocalError ''img_file''), st1)"
      using open1 by (simp add: Let_def)
    then show ?thesis using adds_abort [OF p1] by simp
  next
    case (Some exif)
    obtain r2 st2 where dd: "img_date_dir exif src layout (src @ DEFAULT_DEST) st1 = (r2, st2)"
      by (cases "img_date_dir exif src layout (src @ DEFAULT_DEST) st1") auto
    from img_date_dir_after [OF dd, of w] obtain p2
      where p2: "st2 = state_after w p2 st1" "list_all is_print p2"
      by blast
    have tr: "st2 = state_after w (p1 @ p2) st" and ps: "list_all is_print (p1 @ p2)"
      using p1 p2 by (auto simp: state_after_append)
    show ?thesis
    proof (cases r2)
      case (Inl e)
      then have "img_loop w (pic # files) src layout img st = (Inl e, st2)"
        using open1 Some dd by (simp add: Let_def)
      then show ?thesis using adds_abort [OF tr ps] by simp
    next
      case (Inr d)
      obtain r3 st3 where pf: "place_file w src pic d st2 = (r3, st3)"
        by (cases "place_file w src pic d st2") auto
      show ?thesis
      proof (cases r3)
        case e: (Inl e)
        then have "img_loop w (pic # files) src layout img st = (Inl e, st3)"
          using open1 Some dd Inr pf by (simp add: Let_def)
        then show ?thesis using adds_abort_file [OF tr ps pf [unfolded e]] by simp
      next
        case u: (Inr u)
        then have "img_loop w (pic # files) src layout img st
                   = img_loop w files src layout img1 st3"
          using open1 Some dd Inr pf by (simp add: Let_def)
        moreover have "place_file w src pic d st2 = (Inr (), st3)" using pf u by simp
        ultimately show ?thesis using adds_step [OF tr ps _ Cons.IH] by simp
      qed
    qed
  qed
qed

lemma video_loop_adds: "adds w src files st (video_copy_n_sort w files src layout st)"
proof (induction files arbitrary: st)
  case Nil
  show ?case by (simp add: adds_done)
next
  case (Cons vid files)
  show ?case
  proof (cases "ffmpeg_probe w (src @ vid)")
    case (Inl err)
    then have "video_copy_n_sort w (vid # files) src layout st
                 = (Inl (SystemExit 1), emit (PrintErr err) st)"
      by (simp add: Let_def)
    then show ?thesis
      using adds_abort [of "emit (PrintErr err) st" w "[PrintErr err]" st]
      by (simp add: emit_is_after [symmetric])
  next
    case (Inr streams)
    show ?thesis
    proof (cases "find (\<lambda>s. codec_type s = ''video'') streams")
      case None
      then have "video_copy_n_sort w (vid # files) src layout st
                 = (Inl (SystemExit 1), emit (PrintErr ''No video stream found'') st)"
        using Inr by (simp add: Let_def)
      then show ?thesis
        using adds_abort [of "emit (PrintErr ''No video stream found'') st" w
                "[PrintErr ''No video stream found'']" st]
        by (simp add: emit_is_after [symmetric])
    next
      case (Some vs)
      obtain r2 st2 where dd: "video_date_dir vs src layout (src @ DEFAULT_DEST) st = (r2, st2)"
        by (cases "video_date_dir vs src layout (src @ DEFAULT_DEST) st") auto
      from video_date_dir_after [OF dd, of w] obtain p2 where
        p2: "st2 = state_after w p2 st" "list_all is_print p2"
        by blast
      show ?thesis
      proof (cases r2)
        case (Inl e)
        then have "video_copy_n_sort w (vid # files) src layout st = (Inl e, st2)"
          using Inr Some dd by (simp add: Let_def)
        then show ?thesis using adds_abort [OF p2] by simp
      next
        case d: (Inr d)
        obtain r3 st3 where pf: "place_file w src vid d st2 = (r3, st3)"
          by (cases "place_file w src vid d st2") auto
        show ?thesis
        proof (cases r3)
          case e: (Inl e)
          then have "video_copy_n_sort w (vid # files) src layout st = (Inl e, st3)"
            using Inr Some dd d pf by (simp add: Let_def)
          then show ?thesis using adds_abort_file [OF p2 pf [unfolded e]] by simp
        next
          case u: (Inr u)
          then have "video_copy_n_sort w (vid # files) src layout st
                     = video_copy_n_sort w files src layout st3"
            using Inr Some dd d pf by (simp add: Let_def)
          moreover have "place_file w src vid d st2 = (Inr (), st3)" using pf u by simp
          ultimately show ?thesis using adds_step [OF p2 _ Cons.IH] by simp
        qed
      qed
    qed
  qed
qed


lemma place_file_exists_ok:
  assumes "os_path_exists w (fs st) d"
    and "shutil_move w (src @ f) (d @ ''/'' @ f) (fs st) = Inr t"
  shows "place_file w src f d st
           = (Inr (), state_after w [Exists d True, Move (src @ f) (d @ ''/'' @ f), Record d f] st)"
    and "fs (state_after w [Exists d True, Move (src @ f) (d @ ''/'' @ f), Record d f] st) = t"
  using assms
  by (auto simp: place_file_def create_dir_exists move_media_def Let_def emit_def
        add_record_st_def state_after_def replay_os_def record_all_def)


lemma place_file_missing_ok:
  assumes "\<not> os_path_exists w (fs st) d"
    and "os_makedirs w d (fs st) = Inr t1"
    and "shutil_move w (src @ f) (d @ ''/'' @ f) t1 = Inr t2"
  shows "place_file w src f d st
           = (Inr (), state_after w
                [Exists d False, MakeDirs d, Move (src @ f) (d @ ''/'' @ f), Record d f] st)"
    and "fs (state_after w
                [Exists d False, MakeDirs d, Move (src @ f) (d @ ''/'' @ f), Record d f] st) = t2"
  using assms
  by (auto simp: place_file_def create_dir_missing move_media_def Let_def emit_def
        add_record_st_def state_after_def replay_os_def record_all_def)


lemma img_date_dir_absent:
  "exif 306 = None \<Longrightarrow> img_date_dir exif source_dir dir_layout default_dir st = (Inr default_dir, st)"
  by (simp add: img_date_dir_def)

lemma img_date_dir_present:
  "exif 306 = Some ts \<Longrightarrow> split_ws ts = t0 # ws \<Longrightarrow> split_on CHR '':'' t0 = y # m # rest \<Longrightarrow>
   img_date_dir exif source_dir dir_layout default_dir st
     = generate_date_dir source_dir y m dir_layout st"
  by (simp add: img_date_dir_def index_def)

lemma img_loop_Nil: "img_loop w [] source_dir dir_layout img_file st = (Inr (), st)"
  by simp

lemma img_loop_open_ok:
  "Image_open w (source_dir @ pic) = Inr exif \<Longrightarrow>
   img_date_dir exif source_dir dir_layout (source_dir @ DEFAULT_DEST) st = (Inr d, st') \<Longrightarrow>
   img_loop w (pic # rest) source_dir dir_layout img_file st
     = (case place_file w source_dir pic d st' of
          (Inl e, st1) \<Rightarrow> (Inl e, st1)
        | (Inr u, st1) \<Rightarrow> img_loop w rest source_dir dir_layout (Some exif) st1)"
  by (simp add: Let_def)

lemma img_loop_open_fails_unbound:
  "Image_open w (source_dir @ pic) = Inl e \<Longrightarrow>
   img_loop w (pic # rest) source_dir dir_layout None st
     = (Inl (UnboundLocalError ''img_file''), emit (Print (''Invalid Image: '' @ e)) st)"
  by (simp add: Let_def)

lemma img_loop_open_fails_stale:
  "Image_open w (source_dir @ pic) = Inl e \<Longrightarrow>
   img_date_dir exif source_dir dir_layout (source_dir @ DEFAULT_DEST)
      (emit (Print (''Invalid Image: '' @ e)) st) = (Inr d, st') \<Longrightarrow>
   img_loop w (pic # rest) source_dir dir_layout (Some exif) st
     = (case place_file w source_dir pic d st' of
          (Inl e, st1) \<Rightarrow> (Inl e, st1)
        | (Inr u, st1) \<Rightarrow> img_loop w rest source_dir dir_layout (Some exif) st1)"
  by (simp add: Let_def)

lemma img_loop_absent:
  "Image_open w (source_dir @ pic) = Inr exif \<Longrightarrow> exif 306 = None \<Longrightarrow>
   img_loop w (pic # rest) source_dir dir_layout img_file st
     = (case place_file w source_dir pic (source_dir @ ''Timestamp_Unavailable'') st of
          (Inl e, st1) \<Rightarrow> (Inl e, st1)
        | (Inr u, st1) \<Rightarrow> img_loop w rest source_dir dir_layout (Some exif) st1)"
  using img_loop_open_ok [of w source_dir pic exif dir_layout st "source_dir @ DEFAULT_DEST" st]
  by (simp add: img_date_dir_absent DEFAULT_DEST_def)

lemma video_date_dir_no_tags:
  "tags vs = None \<Longrightarrow>
   video_date_dir vs source_dir dir_layout default_dir st = (Inl (KeyError ''tags''), st)"
  by (simp add: video_date_dir_def video_try_body_def)

lemma video_date_dir_no_creation_time:
  "tags vs = Some tg \<Longrightarrow> tg ''creation_time'' = None \<Longrightarrow>
   video_date_dir vs source_dir dir_layout default_dir st = (Inl (KeyError ''creation_time''), st)"
  by (simp add: video_date_dir_def video_try_body_def)


lemma video_loop_date_error:
  "ffmpeg_probe w (source_dir @ vid) = Inr streams \<Longrightarrow>
   find (\<lambda>s. codec_type s = ''video'') streams = Some vs \<Longrightarrow>
   video_date_dir vs source_dir dir_layout (source_dir @ DEFAULT_DEST) st = (Inl e, st') \<Longrightarrow>
   video_copy_n_sort w (vid # rest) source_dir dir_layout st = (Inl e, st')"
  by (simp add: Let_def)



lemma main_listdir_fails:
  "os_listdir w source_dir = Inl e \<Longrightarrow>
   main w source_dir st = (Inr (), emit (Print (''Non-Valid Directory: '' @ e)) st)"
  by (simp add: main_def)

lemma script_with_argument: "script w [prog, source_dir] st = main w source_dir st"
  by (simp add: script_def index_def)

text \<open>The example environment and its file system.\<close>

lemma example_os:
  "os_path_exists (example_env s) t p = (t p \<noteq> None)"
  "os_makedirs (example_env s) = example_makedirs"
  "shutil_move (example_env s) = example_move"
  by (simp_all add: example_env_def example_exists_def)

lemma example_tree_file: "f \<in> set example_files \<Longrightarrow> example_tree src (src @ f) = Some File"
  by (auto simp: example_tree_def example_files_def)

lemma example_tree_other:
  "p \<noteq> src \<Longrightarrow> p \<notin> (\<lambda>f. src @ f) ` set example_files \<Longrightarrow> example_tree src p = None"
  by (simp add: example_tree_def map_of_eq_None_iff image_image)

lemma split_ws_example: "split_ws ''2020:01:15 10:00:00'' = [''2020:01:15'', ''10:00:00'']"
  by code_simp

lemma split_on_example: "split_on CHR '':'' ''2020:01:15'' = [''2020'', ''01'', ''15'']"
  by simp

lemma example_open_a:
  "Image_open (example_env ''d/'') (''d/'' @ ''a.jpg'') = Inr (example_exif ''2020:01:15 10:00:00'')"
  by (simp add: example_env_def)

lemma example_open_bad:
  "Image_open (example_env ''d/'') (''d/'' @ ''bad.jpg'') = Inl ''cannot identify image file''"
  by (simp add: example_env_def)

lemma example_open_n:
  "Image_open (example_env src) (src @ ''n.jpg'') = Inr Map.empty"
  by (simp add: example_env_def)

lemma example_exif_306: "example_exif ts 306 = Some ts"
  by (simp add: example_exif_def)

lemma example_date_a:
  "img_date_dir (example_exif ''2020:01:15 10:00:00'') ''d/'' ''year'' dd st = (Inr ''d/2020'', st)"
  using img_date_dir_present [where exif = "example_exif ''2020:01:15 10:00:00''",
          OF example_exif_306 split_ws_example split_on_example, of "''d/''" "''year''" dd st]
  by (simp add: generate_date_dir_def)

lemma example_find_video:
  "find (\<lambda>s. codec_type s = ''video'') (example_video tg)
     = Some \<lparr>codec_type = ''video'', tags = Some (map_of tg)\<rparr>"
  by (simp add: example_video_def)

lemma example_probe_old:
  "ffmpeg_probe (example_env ''d/'') (''d/'' @ ''old.mp4'')
     = Inr (example_video [(''handler_name'', ''VideoHandler'')])"
  by (simp add: example_env_def)


lemma example_listdir_elsewhere:
  "os_listdir (example_env ''d/'') ''elsewhere/'' = Inl ''[Errno 2] No such file or directory''"
  by (simp add: example_env_def)

text \<open>The file system of the example, step by step.\<close>

lemma tree_d_2020_missing: "example_tree ''d/'' ''d/2020'' = None"
  by (simp add: example_tree_def example_files_def)

lemma tree_d_makedirs_2020:
  "example_makedirs ''d/2020'' (example_tree ''d/'')
     = Inr ((example_tree ''d/'')(''d'' \<mapsto> Dir, ''d/2020'' \<mapsto> Dir))"
  by (simp add: example_makedirs_def dirs_above_def example_tree_def example_files_def)

lemma tree_d_move_a:
  "example_move (''d/'' @ ''a.jpg'') (''d/2020'' @ ''/'' @ ''a.jpg'')
       ((example_tree ''d/'')(''d'' \<mapsto> Dir, ''d/2020'' \<mapsto> Dir))
     = Inr ((example_tree ''d/'')(''d'' \<mapsto> Dir, ''d/2020'' \<mapsto> Dir,
              ''d/a.jpg'' := None, ''d/2020/a.jpg'' \<mapsto> File))"
  by (simp add: example_move_def dirname_def example_tree_def example_files_def)

lemma tree_d_move_bad:
  "example_move (''d/'' @ ''bad.jpg'') (''d/2020'' @ ''/'' @ ''bad.jpg'')
       ((example_tree ''d/'')(''d'' \<mapsto> Dir, ''d/2020'' \<mapsto> Dir,
              ''d/a.jpg'' := None, ''d/2020/a.jpg'' \<mapsto> File))
     = Inr ((example_tree ''d/'')(''d'' \<mapsto> Dir, ''d/2020'' \<mapsto> Dir,
              ''d/a.jpg'' := None, ''d/2020/a.jpg'' \<mapsto> File,
              ''d/bad.jpg'' := None, ''d/2020/bad.jpg'' \<mapsto> File))"
  by (simp add: example_move_def dirname_def example_tree_def example_files_def)

lemma tree_bucket_missing:
  "example_tree ''d/'' ''d/Timestamp_Unavailable'' = None"
  by (simp add: example_tree_def example_files_def)

lemma tree_makedirs_bucket:
  "example_makedirs ''d/Timestamp_Unavailable'' (example_tree ''d/'')
     = Inr ((example_tree ''d/'')(''d'' \<mapsto> Dir, ''d/Timestamp_Unavailable'' \<mapsto> Dir))"
  by (simp add: example_makedirs_def dirs_above_def example_tree_def example_files_def)

lemma tree_move_n:
  "example_move (''d/'' @ ''n.jpg'') (''d/Timestamp_Unavailable'' @ ''/'' @ ''n.jpg'')
       ((example_tree ''d/'')(''d'' \<mapsto> Dir, ''d/Timestamp_Unavailable'' \<mapsto> Dir))
     = Inr ((example_tree ''d/'')(''d'' \<mapsto> Dir, ''d/Timestamp_Unavailable'' \<mapsto> Dir,
              ''d/n.jpg'' := None, ''d/Timestamp_Unavailable/n.jpg'' \<mapsto> File))"
  by (simp add: example_move_def dirname_def example_tree_def example_files_def)






lemma fs_example_state: "fs (example_state src lines) = example_tree src"
  by (simp add: example_state_def)

lemma example_place_a:
  assumes "fs st = example_tree ''d/''"
  shows "place_file (example_env ''d/'') ''d/'' ''a.jpg'' ''d/2020'' st
           = (Inr (), state_after (example_env ''d/'')
                [Exists ''d/2020'' False, MakeDirs ''d/2020'',
                 Move ''d/a.jpg'' ''d/2020/a.jpg'', Record ''d/2020'' ''a.jpg''] st)"
    and "fs (state_after (example_env ''d/'')
                [Exists ''d/2020'' False, MakeDirs ''d/2020'',
                 Move ''d/a.jpg'' ''d/2020/a.jpg'', Record ''d/2020'' ''a.jpg''] st)
           = (example_tree ''d/'')(''d'' \<mapsto> Dir, ''d/2020'' \<mapsto> Dir,
                ''d/a.jpg'' := None, ''d/2020/a.jpg'' \<mapsto> File)"
  using place_file_missing_ok [of "example_env ''d/''" st "''d/2020''"
          "(example_tree ''d/'')(''d'' \<mapsto> Dir, ''d/2020'' \<mapsto> Dir)" "''d/''" "''a.jpg''"
          "(example_tree ''d/'')(''d'' \<mapsto> Dir, ''d/2020'' \<mapsto> Dir,
                ''d/a.jpg'' := None, ''d/2020/a.jpg'' \<mapsto> File)"]
        tree_d_2020_missing tree_d_makedirs_2020 tree_d_move_a assms
  by (simp_all add: example_os)

lemma example_place_bad:
  assumes "fs st = (example_tree ''d/'')(''d'' \<mapsto> Dir, ''d/2020'' \<mapsto> Dir,
                ''d/a.jpg'' := None, ''d/2020/a.jpg'' \<mapsto> File)"
  shows "place_file (example_env ''d/'') ''d/'' ''bad.jpg'' ''d/2020'' st
           = (Inr (), state_after (example_env ''d/'')
                [Exists ''d/2020'' True,
                 Move ''d/bad.jpg'' ''d/2020/bad.jpg'', Record ''d/2020'' ''bad.jpg''] st)"
  using place_file_exists_ok(1) [of "example_env ''d/''" st "''d/2020''" "''d/''" "''bad.jpg''"]
        tree_d_move_bad assms
  by (simp add: example_os)

lemma example_place_bucket:
  assumes "fs st = example_tree ''d/''"
  shows "place_file (example_env ''d/'') ''d/'' ''n.jpg'' ''d/Timestamp_Unavailable'' st
           = (Inr (), state_after (example_env ''d/'')
                [Exists ''d/Timestamp_Unavailable'' False, MakeDirs ''d/Timestamp_Unavailable'',
                 Move ''d/n.jpg'' ''d/Timestamp_Unavailable/n.jpg'',
                 Record ''d/Timestamp_Unavailable'' ''n.jpg''] st)"
  using place_file_missing_ok(1) [of "example_env ''d/''" st "''d/Timestamp_Unavailable''"
          "(example_tree ''d/'')(''d'' \<mapsto> Dir, ''d/Timestamp_Unavailable'' \<mapsto> Dir)"
          "''d/''" "''n.jpg''"]
        tree_bucket_missing tree_makedirs_bucket tree_move_n assms
  by (simp add: example_os)



lemma example_photo_run:
  assumes "fs st = example_tree ''d/''"
  shows "img_copy_n_sort (example_env ''d/'') [''n.jpg''] ''d/'' dir_layout st
     = (Inr (), state_after (example_env ''d/'')
                [Exists ''d/Timestamp_Unavailable'' False, MakeDirs ''d/Timestamp_Unavailable'',
                 Move ''d/n.jpg'' ''d/Timestamp_Unavailable/n.jpg'',
                 Record ''d/Timestamp_Unavailable'' ''n.jpg''] st)"
proof -
  have "img_loop (example_env ''d/'') [''n.jpg''] ''d/'' dir_layout None st
        = (case place_file (example_env ''d/'') ''d/'' ''n.jpg'' (''d/'' @ ''Timestamp_Unavailable'') st of
             (Inl e, st1) \<Rightarrow> (Inl e, st1)
           | (Inr u, st1) \<Rightarrow> img_loop (example_env ''d/'') [] ''d/'' dir_layout (Some Map.empty) st1)"
    by (rule img_loop_absent [OF example_open_n]) simp
  then show ?thesis
    unfolding img_copy_n_sort_def using example_place_bucket [OF assms] by simp
qed






section \<open>A photo that cannot be decoded\<close>

text \<open>
  Claim C1 asks that a photo that cannot be decoded is logged and then skipped: no move, no
  record, no exception. The code prints the message and goes on with the same iteration.
  On a directory whose only photo cannot be decoded the loop ends with UnboundLocalError
  for \<^verbatim>\<open>img_file\<close>; after a photo that was decoded, the undecodable one is moved and
  recorded under the date of that earlier photo.
\<close>

theorem undecodable_photo_not_skipped:
  "img_copy_n_sort (example_env ''d/'') [''bad.jpg''] ''d/'' ''year'' (example_state ''d/'' [])
     = (Inl (UnboundLocalError ''img_file''),
        emit (Print ''Invalid Image: cannot identify image file'') (example_state ''d/'' []))
   \<and> fst (img_copy_n_sort (example_env ''d/'') [''a.jpg'', ''bad.jpg''] ''d/'' ''year''
            (example_state ''d/'' [])) = Inr ()
   \<and> trace (snd (img_copy_n_sort (example_env ''d/'') [''a.jpg'', ''bad.jpg''] ''d/'' ''year''
            (example_state ''d/'' [])))
     = [Exists ''d/2020'' False, MakeDirs ''d/2020'',
        Move ''d/a.jpg'' ''d/2020/a.jpg'', Record ''d/2020'' ''a.jpg'',
        Print ''Invalid Image: cannot identify image file'',
        Exists ''d/2020'' True,
        Move ''d/bad.jpg'' ''d/2020/bad.jpg'', Record ''d/2020'' ''bad.jpg'']
   \<and> transactions (snd (img_copy_n_sort (example_env ''d/'') [''a.jpg'', ''bad.jpg''] ''d/''
            ''year'' (example_state ''d/'' [])))
     = [(''d/2020'', [''a.jpg'', ''bad.jpg''])]"
proof -
  let ?w = "example_env ''d/''" and ?s = "example_state ''d/'' []"
  let ?x = "example_exif ''2020:01:15 10:00:00''"
  let ?s1 = "state_after ?w [Exists ''d/2020'' False, MakeDirs ''d/2020'',
                 Move ''d/a.jpg'' ''d/2020/a.jpg'', Record ''d/2020'' ''a.jpg''] ?s"
  let ?s1' = "emit (Print (''Invalid Image: '' @ ''cannot identify image file'')) ?s1"
  let ?s2 = "state_after ?w [Exists ''d/2020'' True,
                 Move ''d/bad.jpg'' ''d/2020/bad.jpg'', Record ''d/2020'' ''bad.jpg''] ?s1'"
  have one: "img_copy_n_sort ?w [''bad.jpg''] ''d/'' ''year'' ?s
     = (Inl (UnboundLocalError ''img_file''),
        emit (Print ''Invalid Image: cannot identify image file'') ?s)"
    unfolding img_copy_n_sort_def
    using img_loop_open_fails_unbound [OF example_open_bad, of "[]" "''year''" ?s] by simp
  have pa: "place_file ?w ''d/'' ''a.jpg'' ''d/2020'' ?s = (Inr (), ?s1)"
    and f1: "fs ?s1' = (example_tree ''d/'')(''d'' \<mapsto> Dir, ''d/2020'' \<mapsto> Dir,
                ''d/a.jpg'' := None, ''d/2020/a.jpg'' \<mapsto> File)"
    using example_place_a [OF fs_example_state] by (simp_all add: fs_emit)
  have pb: "place_file ?w ''d/'' ''bad.jpg'' ''d/2020'' ?s1' = (Inr (), ?s2)"
    by (rule example_place_bad [OF f1])
  have "img_loop ?w [''a.jpg'', ''bad.jpg''] ''d/'' ''year'' None ?s
          = (case place_file ?w ''d/'' ''a.jpg'' ''d/2020'' ?s of
               (Inl e, st1) \<Rightarrow> (Inl e, st1)
             | (Inr u, st1) \<Rightarrow> img_loop ?w [''bad.jpg''] ''d/'' ''year'' (Some ?x) st1)"
    by (rule img_loop_open_ok [OF example_open_a example_date_a])
  then have a: "img_loop ?w [''a.jpg'', ''bad.jpg''] ''d/'' ''year'' None ?s
           = img_loop ?w [''bad.jpg''] ''d/'' ''year'' (Some ?x) ?s1"
    by (simp only: pa prod.case sum.case)
  have "img_loop ?w [''bad.jpg''] ''d/'' ''year'' (Some ?x) ?s1
          = (case place_file ?w ''d/'' ''bad.jpg'' ''d/2020'' ?s1' of
               (Inl e, st1) \<Rightarrow> (Inl e, st1)
             | (Inr u, st1) \<Rightarrow> img_loop ?w [] ''d/'' ''year'' (Some ?x) st1)"
    by (rule img_loop_open_fails_stale [OF example_open_bad example_date_a])
  then have b: "img_loop ?w [''bad.jpg''] ''d/'' ''year'' (Some ?x) ?s1
           = img_loop ?w [] ''d/'' ''year'' (Some ?x) ?s2"
    by (simp only: pb prod.case sum.case)
  have two: "img_copy_n_sort ?w [''a.jpg'', ''bad.jpg''] ''d/'' ''year'' ?s = (Inr (), ?s2)"
    unfolding img_copy_n_sort_def a b by (rule img_loop_Nil)
  have tr: "trace ?s2 = [Exists ''d/2020'' False, MakeDirs ''d/2020'',
        Move ''d/a.jpg'' ''d/2020/a.jpg'', Record ''d/2020'' ''a.jpg'',
        Print ''Invalid Image: cannot identify image file'',
        Exists ''d/2020'' True,
        Move ''d/bad.jpg'' ''d/2020/bad.jpg'', Record ''d/2020'' ''bad.jpg'']"
    by (simp add: state_after_fields trace_emit example_state_def)
  have tx: "transactions ?s2 = [(''d/2020'', [''a.jpg'', ''bad.jpg''])]"
    by (simp add: state_after_fields emit_def example_state_def record_all_def add_record_def)
  show ?thesis
    unfolding one two using tr tx by simp
qed

section \<open>A video without creation time\<close>

text \<open>
  Claim C2 asks that a video whose stream has no \<^verbatim>\<open>creation_time\<close> tag goes to the
  default directory. In the code the missing key raises KeyError, which the handler of
  IndexError does not catch: the loop ends with that exception, nothing is created, moved or
  recorded, and the process ends with status 1.
\<close>

theorem video_without_creation_time_aborts:
  "video_copy_n_sort (example_env ''d/'') [''old.mp4''] ''d/'' ''year'' (example_state ''d/'' [])
     = (Inl (KeyError ''creation_time''), example_state ''d/'' [])
   \<and> exit_status (fst (video_copy_n_sort (example_env ''d/'') [''old.mp4''] ''d/'' ''year''
                         (example_state ''d/'' []))) = 1"
proof -
  have "video_date_dir \<lparr>codec_type = ''video'', tags = Some (map_of [(''handler_name'', ''VideoHandler'')])\<rparr>
          ''d/'' ''year'' (''d/'' @ DEFAULT_DEST) (example_state ''d/'' [])
        = (Inl (KeyError ''creation_time''), example_state ''d/'' [])"
    by (rule video_date_dir_no_creation_time [where tg = "map_of [(''handler_name'', ''VideoHandler'')]"]) simp_all
  from video_loop_date_error [OF example_probe_old example_find_video this]
  show ?thesis by simp
qed

section \<open>A source directory that cannot be listed\<close>

text \<open>
  Claim C3, as the code has it. When \<^verbatim>\<open>os.listdir\<close> fails on the source directory,
  \<^verbatim>\<open>main\<close> prints the line \<open>Non-Valid Directory:\<close> with the text of the exception and
  returns; nothing else is printed, asked, created, moved or recorded, and the script ends
  normally, with exit status 0.
\<close>

theorem unreadable_directory_returns_normally:
  assumes "os_listdir w source_dir = Inl e"
  shows "main w source_dir st = (Inr (), emit (Print (''Non-Valid Directory: '' @ e)) st)
         \<and> script w [prog, source_dir] st
             = (Inr (), emit (Print (''Non-Valid Directory: '' @ e)) st)
         \<and> exit_status (fst (script w [prog, source_dir] st)) = 0"
  using assms by (simp add: main_listdir_fails script_with_argument)

theorem unreadable_directory_returns_normally_witness:
  "os_listdir (example_env ''d/'') ''elsewhere/'' = Inl ''[Errno 2] No such file or directory''
   \<and> main (example_env ''d/'') ''elsewhere/'' (example_state ''d/'' [])
       = (Inr (), emit (Print ''Non-Valid Directory: [Errno 2] No such file or directory'')
                    (example_state ''d/'' []))
   \<and> exit_status (fst (script (example_env ''d/'') [''OrganizeMedia.py'', ''elsewhere/'']
                         (example_state ''d/'' []))) = 0"
  using unreadable_directory_returns_normally [OF example_listdir_elsewhere,
          of "example_state ''d/'' []" "''OrganizeMedia.py''"]
        example_listdir_elsewhere
  by simp

text \<open>
  The claim as the specification words it, a nonzero exit status, fails on the example
  directory when the script is given a directory that cannot be listed.
\<close>

theorem unreadable_directory_exit_status_zero:
  "fst (script (example_env ''d/'') [''OrganizeMedia.py'', ''elsewhere/''] (example_state ''d/'' []))
     = Inr ()
   \<and> exit_status (fst (script (example_env ''d/'') [''OrganizeMedia.py'', ''elsewhere/'']
                         (example_state ''d/'' []))) = 0
   \<and> exit_status (fst (script (example_env ''d/'') [''OrganizeMedia.py'', ''elsewhere/'']
                         (example_state ''d/'' []))) \<noteq> 1"
  by (simp add: script_with_argument main_listdir_fails [OF example_listdir_elsewhere])

section \<open>The destination of a file without date\<close>




section \<open>A layout that is not one of the four\<close>

text \<open>
  Claim C6, as the code has it. For every year and month token, \<^verbatim>\<open>generate_date_dir\<close>
  with a layout that is none of month, year, year_month and year/month prints
  \<open>Invalid dir_layout provided\<close> and exits with status 1. (A file without date does not
  reach \<^verbatim>\<open>generate_date_dir\<close>.)
\<close>

theorem generate_date_dir_invalid_layout:
  assumes "dir_layout \<notin> {''month'', ''year'', ''year_month'', ''year/month''}"
  shows "generate_date_dir source_dir year month dir_layout st
           = (Inl (SystemExit 1), emit (Print ''Invalid dir_layout provided'') st)
         \<and> exit_status (fst (generate_date_dir source_dir year month dir_layout st)) = 1"
  using assms by (simp add: generate_date_dir_def)

theorem generate_date_dir_invalid_layout_witness:
  "''bogus'' \<notin> {''month'', ''year'', ''year_month'', ''year/month''}
   \<and> generate_date_dir ''d/'' ''2021'' ''08'' ''bogus'' (example_state ''d/'' [])
       = (Inl (SystemExit 1), emit (Print ''Invalid dir_layout provided'') (example_state ''d/'' []))
   \<and> exit_status (fst (generate_date_dir ''d/'' ''2021'' ''08'' ''bogus'' (example_state ''d/'' []))) = 1"
proof -
  have h: "''bogus'' \<notin> {''month'', ''year'', ''year_month'', ''year/month''}" by simp
  show ?thesis
    using h generate_date_dir_invalid_layout [OF h, of "''d/''" "''2021''" "''08''" "example_state ''d/'' []"]
    by simp
qed

text \<open>
  The claim as the specification words it includes the file without date: there the layout
  is not looked at, and a photo without tag 306 under the layout \<open>bogus\<close> is moved to the
  default directory and the loop returns normally.
\<close>

theorem undated_photo_invalid_layout_not_fatal:
  "fst (img_copy_n_sort (example_env ''d/'') [''n.jpg''] ''d/'' ''bogus'' (example_state ''d/'' []))
     = Inr ()
   \<and> trace (snd (img_copy_n_sort (example_env ''d/'') [''n.jpg''] ''d/'' ''bogus''
                   (example_state ''d/'' [])))
     = [Exists ''d/Timestamp_Unavailable'' False, MakeDirs ''d/Timestamp_Unavailable'',
        Move ''d/n.jpg'' ''d/Timestamp_Unavailable/n.jpg'',
        Record ''d/Timestamp_Unavailable'' ''n.jpg'']"
  unfolding example_photo_run [OF fs_example_state]
  by (simp add: state_after_fields example_state_def)

section \<open>The order of the steps\<close>




section \<open>Which files a session touches\<close>

lemma touches_only_iff:
  "touches_only src files st st' \<longleftrightarrow>
     (\<forall>e\<in>set (trace st'). is_file_step e \<longrightarrow>
        e \<in> set (trace st) \<or> (\<exists>f\<in>set files. moves_or_records src f e))"
  by (simp add: touches_only_def list_all_iff list_ex_iff)

lemma touches_only_trans:
  "touches_only src fs1 st st' \<Longrightarrow> touches_only src fs2 st' st'' \<Longrightarrow>
   touches_only src (fs1 @ fs2) st st''"
  unfolding touches_only_iff by fastforce

lemma touches_only_quiet:
  "touches_only src [] st st' \<Longrightarrow> touches_only src files st' st'' \<Longrightarrow>
   touches_only src files st st''"
  using touches_only_trans [of src "[]" st st' files st''] by simp

lemma touches_only_prints:
  "trace st' = trace st @ ps \<Longrightarrow> list_all (\<lambda>e. \<not> is_file_step e) ps \<Longrightarrow>
   touches_only src [] st st'"
  unfolding touches_only_iff by (auto simp: list_all_iff)

lemma touches_only_emit_Print: "touches_only src [] st (emit (Print m) st)"
  by (rule touches_only_prints [of _ _ "[Print m]"]) (simp_all add: trace_emit)

lemma touches_only_input: "touches_only src [] st (snd (input p st))"
  by (rule touches_only_prints [of _ _ "[Prompt p]"])
     (simp_all add: input_def emit_def split: list.splits)

lemma touches_only_adds: "adds w src files st r \<Longrightarrow> touches_only src files st (snd r)"
  unfolding adds_def touches_only_iff by (auto simp: state_after_fields)

lemma confirm_loop_quiet: "touches_only src [] st (snd (confirm_loop st))"
proof (induction st rule: confirm_loop.induct)
  case (1 st)
  obtain r st1 where i: "input confirm_prompt st = (r, st1)"
    by (cases "input confirm_prompt st") auto
  have q: "touches_only src [] st st1" using touches_only_input [of src st confirm_prompt] i by simp
  show ?case
  proof (cases r)
    case (Inl e)
    then show ?thesis using i q by (simp add: confirm_loop.simps [of st])
  next
    case (Inr res)
    show ?thesis
    proof (cases "strip res = ''y''")
      case True
      then show ?thesis using i q Inr by (simp add: confirm_loop.simps [of st])
    next
      case ny: False
      show ?thesis
      proof (cases "strip res = ''n''")
        case True
        then show ?thesis
          using i Inr ny touches_only_quiet [OF q touches_only_emit_Print]
          by (simp add: confirm_loop.simps [of st])
      next
        case False
        have "touches_only src [] st1 (snd (confirm_loop st1))"
          by (rule "1.IH" [OF i [symmetric] Inr ny False])
        then show ?thesis
          using i Inr ny False touches_only_quiet [OF q]
          by (simp add: confirm_loop.simps [of st])
      qed
    qed
  qed
qed

lemma layout_loop_quiet: "touches_only src [] st (snd (layout_loop st))"
proof (induction st rule: layout_loop.induct)
  case (1 st)
  obtain r st1 where i: "input layout_prompt st = (r, st1)"
    by (cases "input layout_prompt st") auto
  have q: "touches_only src [] st st1" using touches_only_input [of src st layout_prompt] i by simp
  show ?case
  proof (cases r)
    case (Inl e)
    then show ?thesis using i q by (simp add: layout_loop.simps [of st])
  next
    case (Inr res)
    show ?thesis
    proof (cases "strip res = ''y'' \<or> strip res = ''m'' \<or> strip res = ''y_m'' \<or> strip res = ''y/m''")
      case True
      then show ?thesis using i q Inr by (auto simp: layout_loop.simps [of st])
    next
      case False
      have "touches_only src [] (emit (Print ''Invalid input, please try again.'') st1)
              (snd (layout_loop (emit (Print ''Invalid input, please try again.'') st1)))"
        using "1.IH" [OF i [symmetric] Inr] False by simp
      then show ?thesis
        using i Inr False touches_only_quiet [OF touches_only_quiet [OF q touches_only_emit_Print]]
        by (simp add: layout_loop.simps [of st])
    qed
  qed
qed

lemma trace_foldl_emit:
  "trace (foldl (\<lambda>s x. emit (g x) s) st xs) = trace st @ map g xs"
  by (induction xs arbitrary: st) (simp_all add: trace_emit)

lemma trace_pp_transactions:
  "trace (pp_transactions log st) = trace st @ map (\<lambda>kv. Print (pp_entry kv)) (sort_key fst log)"
  by (simp add: pp_transactions_def trace_foldl_emit)

lemma pp_transactions_quiet: "touches_only src [] st (pp_transactions log st)"
  by (rule touches_only_prints [OF trace_pp_transactions]) (simp add: list_all_iff)

lemma touches_only_refl: "touches_only src files st st"
  by (simp add: touches_only_iff)

lemma touches_only_transactions:
  "touches_only src [] st (st\<lparr>transactions := l\<rparr>)"
  by (simp add: touches_only_iff)

lemma main_touches:
  assumes ls: "os_listdir w src = Inr arr"
  shows "touches_only src (fst (find_media_in_dir arr) @ snd (find_media_in_dir arr)) st
           (snd (main w src st))"
proof -
  obtain imgs videos where fm: "find_media_in_dir arr = (imgs, videos)"
    by (cases "find_media_in_dir arr") auto
  let ?msg = "str_nat (length imgs) @ '' images and '' @ str_nat (length videos)
                @ '' videos found in '' @ os_getcwd w @ ''/'' @ src"
  let ?st0 = "emit (Print ?msg) st"
  have q0: "touches_only src [] st ?st0" by (rule touches_only_emit_Print)
  show ?thesis
  proof (cases "length imgs = 0 \<and> length videos = 0")
    case True
    then have "snd (main w src st)
                 = emit (Print (''No Media found in '' @ os_getcwd w @ ''/'' @ src @ ''!'')) st"
      using ls fm by (simp add: main_def)
    then show ?thesis using fm True touches_only_emit_Print [of src st] by simp
  next
    case nonempty: False
    obtain r1 st1 where c: "confirm_loop ?st0 = (r1, st1)" by (cases "confirm_loop ?st0") auto
    have q1: "touches_only src [] st st1"
      using touches_only_quiet [OF q0 confirm_loop_quiet [of src ?st0]] c by simp
    show ?thesis
    proof (cases r1)
      case (Inl e)
      then have "snd (main w src st) = st1"
        using ls fm nonempty c by (auto simp: main_def Let_def)
      then show ?thesis using q1 fm by (simp add: touches_only_iff)
    next
      case u: (Inr u)
      obtain r2 st2 where l: "layout_loop st1 = (r2, st2)" by (cases "layout_loop st1") auto
      have q2: "touches_only src [] st st2"
        using touches_only_quiet [OF q1 layout_loop_quiet [of src st1]] l by simp
      show ?thesis
      proof (cases r2)
        case (Inl e)
        then have "snd (main w src st) = st2"
          using ls fm nonempty c u l by (auto simp: main_def Let_def)
        then show ?thesis using q2 fm by (simp add: touches_only_iff)
      next
        case lay: (Inr dir_layout)
        let ?st2' = "st2\<lparr>transactions := []\<rparr>"
        have q2': "touches_only src [] st ?st2'"
          by (rule touches_only_quiet [OF q2 touches_only_transactions])
        obtain r3 st3 where i: "img_copy_n_sort w imgs src dir_layout ?st2' = (r3, st3)"
          by (cases "img_copy_n_sort w imgs src dir_layout ?st2'") auto
        have "touches_only src imgs ?st2' st3"
          using touches_only_adds [OF img_loop_adds [of w src imgs ?st2' dir_layout None]] i
          by (simp add: img_copy_n_sort_def)
        then have q3: "touches_only src imgs st st3"
          by (rule touches_only_quiet [OF q2'])
        show ?thesis
        proof (cases r3)
          case (Inl e)
          then have "snd (main w src st) = st3"
            using ls fm nonempty c u l lay i by (auto simp: main_def Let_def)
          then show ?thesis using q3 fm by (auto simp: touches_only_iff)
        next
          case u1: (Inr u1)
          obtain r4 st4 where v: "video_copy_n_sort w videos src dir_layout st3 = (r4, st4)"
            by (cases "video_copy_n_sort w videos src dir_layout st3") auto
          have "touches_only src videos st3 st4"
            using touches_only_adds [OF video_loop_adds [of w src videos st3 dir_layout]] v
            by simp
          then have q4: "touches_only src (imgs @ videos) st st4"
            by (rule touches_only_trans [OF q3])
          show ?thesis
          proof (cases r4)
            case (Inl e)
            then have "snd (main w src st) = st4"
              using ls fm nonempty c u l lay i u1 v by (auto simp: main_def Let_def)
            then show ?thesis using q4 fm by simp
          next
            case (Inr u2)
            then have "snd (main w src st) = pp_transactions (transactions st4) st4"
              using ls fm nonempty c u l lay i u1 v by (auto simp: main_def Let_def)
            moreover have "touches_only src (imgs @ videos) st (pp_transactions (transactions st4) st4)"
              using touches_only_trans [OF q4 pp_transactions_quiet [of src st4 "transactions st4"]]
              by simp
            ultimately show ?thesis using fm by simp
          qed
        qed
      qed
    qed
  qed
qed

lemma main_touches_unlisted:
  "os_listdir w src = Inl e \<Longrightarrow> touches_only src [] st (snd (main w src st))"
  by (simp add: main_listdir_fails touches_only_emit_Print)

lemma moves_or_records_inj:
  "moves_or_records src g e \<Longrightarrow> moves_or_records src f e \<Longrightarrow> g = f"
  by (cases e) auto

lemma moves_or_records_file_step: "moves_or_records src f e \<Longrightarrow> is_file_step e"
  by (cases e) auto

lemma case_variant_not_known:
  assumes "differs_only_in_case t ext" and "ext \<in> set (photo_types @ video_types)"
  shows "t \<notin> {''jpg'', ''png''} \<and> t \<noteq> ''mp4''"
  using assms
  by (auto simp: differs_only_in_case_def photo_types_def video_types_def lower_char_def)


text \<open>
  Claim C10. The extensions are compared as they are written. A file name whose last piece
  between dots differs from jpg, png or mp4 only in the case of its letters, such as
  \<^verbatim>\<open>photo.JPG\<close> or \<^verbatim>\<open>clip.MP4\<close>, is in neither list of \<^verbatim>\<open>find_media_in_dir\<close>,
  and a session on any directory, with any answers of the operator, adds no move and no
  record of that file to the trace.
\<close>

theorem case_variant_extension_ignored:
  assumes "differs_only_in_case (last (split_on CHR ''.'' f)) ext"
    and "ext \<in> set (photo_types @ video_types)"
  shows "f \<notin> set (fst (find_media_in_dir files)) \<and> f \<notin> set (snd (find_media_in_dir files))
         \<and> (\<forall>e\<in>set (trace (snd (main w source_dir st))).
               moves_or_records source_dir f e \<longrightarrow> e \<in> set (trace st))"
proof -
  have no: "\<And>fs. f \<notin> set (fst (find_media_in_dir fs) @ snd (find_media_in_dir fs))"
    using case_variant_not_known [OF assms] by (auto simp: find_media_in_dir_filter)
  have "\<exists>fs. f \<notin> set fs \<and> touches_only source_dir fs st (snd (main w source_dir st))"
  proof (cases "os_listdir w source_dir")
    case (Inl e)
    then show ?thesis using main_touches_unlisted [of w source_dir e st] by (intro exI [of _ "[]"]) simp
  next
    case (Inr arr)
    then show ?thesis using main_touches [of w source_dir arr st] no by blast
  qed
  then obtain fs where fs: "f \<notin> set fs" "touches_only source_dir fs st (snd (main w source_dir st))"
    by blast
  have "\<forall>e\<in>set (trace (snd (main w source_dir st))).
               moves_or_records source_dir f e \<longrightarrow> e \<in> set (trace st)"
    using fs moves_or_records_inj moves_or_records_file_step
    unfolding touches_only_iff by blast
  then show ?thesis using no [of files] by simp
qed

theorem case_variant_extension_ignored_witness:
  "differs_only_in_case (last (split_on CHR ''.'' ''photo.JPG'')) ''jpg''
   \<and> ''jpg'' \<in> set (photo_types @ video_types)
   \<and> ''photo.JPG'' \<notin> set (fst (find_media_in_dir example_files))
   \<and> ''photo.JPG'' \<notin> set (snd (find_media_in_dir example_files))
   \<and> filter (moves_or_records ''d/'' ''photo.JPG'')
        (trace (snd (main (example_env ''d/'') ''d/'' (example_state ''d/'' [''y'', ''m''])))) = []"
proof -
  have t: "last (split_on CHR ''.'' ''photo.JPG'') = ''JPG''" by simp
  have a: "differs_only_in_case (last (split_on CHR ''.'' ''photo.JPG'')) ''jpg''"
    unfolding t by code_simp
  have b: "''jpg'' \<in> set (photo_types @ video_types)" by (simp add: photo_types_def)
  have c: "set (trace (example_state ''d/'' [''y'', ''m''])) = {}"
    by (simp add: example_state_def)
  from case_variant_extension_ignored [OF a b, of example_files "example_env ''d/''" "''d/''"
         "example_state ''d/'' [''y'', ''m'']"]
  have "''photo.JPG'' \<notin> set (fst (find_media_in_dir example_files))"
    and "''photo.JPG'' \<notin> set (snd (find_media_in_dir example_files))"
    and "\<forall>e\<in>set (trace (snd (main (example_env ''d/'') ''d/'' (example_state ''d/'' [''y'', ''m''])))).
           \<not> moves_or_records ''d/'' ''photo.JPG'' e"
    unfolding c by blast+
  then show ?thesis using a b by (simp add: filter_empty_conv)
qed


section \<open>The transaction log and its report\<close>

lemma insort_key_map:
  "insort_key f (g k) (map g ks) = map g (insort_key (\<lambda>x. f (g x)) k ks)"
  by (induction ks) auto

lemma sort_key_map:
  "sort_key f (map g ks) = map g (sort_key (\<lambda>x. f (g x)) ks)"
  by (induction ks) (simp_all add: insort_key_map)

lemma alist_as_map:
  assumes "distinct (map fst xs)"
  shows "map (\<lambda>k. (k, the (map_of xs k))) (map fst xs) = xs"
proof -
  have "map (\<lambda>x. (fst x, the (map_of xs (fst x)))) xs = map (\<lambda>x. x) xs"
    by (rule map_cong) (auto simp: map_of_is_SomeI [OF assms])
  then show ?thesis by (simp add: o_def)
qed

lemma sort_key_fst_distinct:
  assumes "distinct (map fst xs)"
  shows "sort_key fst xs = map (\<lambda>k. (k, the (map_of xs k))) (sort (map fst xs))"
proof -
  have "sort_key fst xs = sort_key fst (map (\<lambda>k. (k, the (map_of xs k))) (map fst xs))"
    by (simp only: alist_as_map [OF assms])
  also have "\<dots> = map (\<lambda>k. (k, the (map_of xs k))) (sort_key (\<lambda>x. x) (map fst xs))"
    by (simp add: sort_key_map)
  finally show ?thesis .
qed

lemma distinct_add_record:
  "distinct (map fst log) \<Longrightarrow> distinct (map fst (add_record log f d))"
  by (simp add: add_record_def Let_def distinct_update)

lemma keys_add_record:
  "fst ` set (add_record log f d) = insert d (fst ` set log)"
  by (simp add: add_record_def Let_def dom_update)

lemma map_of_add_record:
  "map_of (add_record log f d) k =
     (if k = d then Some ((case map_of log d of None \<Rightarrow> [] | Some v \<Rightarrow> v) @ [f])
      else map_of log k)"
  by (simp add: add_record_def Let_def update_conv')

lemma record_all_snoc:
  "record_all (calls @ [c]) log = add_record (record_all calls log) (snd c) (fst c)"
  by (simp add: record_all_def)

lemma distinct_record_all: "distinct (map fst (record_all calls []))"
  by (induction calls rule: rev_induct)
     (simp_all add: record_all_snoc distinct_add_record, simp add: record_all_def)

lemma keys_record_all: "fst ` set (record_all calls []) = fst ` set calls"
proof (induction calls rule: rev_induct)
  case Nil
  show ?case by (simp add: record_all_def)
next
  case (snoc c calls)
  then show ?case by (simp add: record_all_snoc keys_add_record)
qed

lemma map_of_record_all:
  "map_of (record_all calls []) d =
     (if d \<in> fst ` set calls then Some (map snd (filter (\<lambda>c. fst c = d) calls)) else None)"
proof (induction calls rule: rev_induct)
  case Nil
  show ?case by (simp add: record_all_def)
next
  case (snoc c calls)
  show ?case
    unfolding record_all_snoc map_of_add_record using snoc
    by (fastforce simp: filter_empty_conv image_iff)
qed

lemma sorted_keys_record_all:
  "sort (map fst (record_all calls [])) = sort (remdups (map fst calls))"
  by (rule sorted_distinct_set_unique)
     (simp_all add: distinct_record_all keys_record_all)

lemma sort_key_record_all:
  "sort_key fst (record_all calls [])
     = map (\<lambda>d. (d, map snd (filter (\<lambda>c. fst c = d) calls))) (sort (remdups (map fst calls)))"
proof -
  have "sort_key fst (record_all calls [])
        = map (\<lambda>k. (k, the (map_of (record_all calls []) k))) (sort (remdups (map fst calls)))"
    by (simp only: sort_key_fst_distinct [OF distinct_record_all] sorted_keys_record_all)
  also have "\<dots> = map (\<lambda>d. (d, map snd (filter (\<lambda>c. fst c = d) calls)))
                      (sort (remdups (map fst calls)))"
    by (rule map_cong) (simp_all add: map_of_record_all)
  finally show ?thesis .
qed

lemma foldl_append_lines:
  "foldl (\<lambda>msg val. msg @ newline @ ''    '' @ val) acc v
     = acc @ concat (map (\<lambda>val. newline @ ''    '' @ val) v)"
  by (induction v arbitrary: acc) simp_all

lemma pp_entry_lines:
  "pp_entry (d, files) = newline @ d @ '':'' @ concat (map (\<lambda>f. newline @ ''    '' @ f) files)"
  unfolding pp_entry_def by (simp only: prod.case foldl_append_lines append_assoc)


text \<open>
  An example: three records under two destinations, the later destination first.
\<close>

lemma report_example:
  "trace (pp_transactions
            (record_all [(''d/2021'', ''b.jpg''), (''d/2020'', ''a.jpg''), (''d/2021'', ''c.mp4'')] [])
            (example_state ''d/'' []))
     = [Print (newline @ ''d/2020:'' @ newline @ ''    a.jpg''),
        Print (newline @ ''d/2021:'' @ newline @ ''    b.jpg'' @ newline @ ''    c.mp4'')]"
  by (simp add: trace_pp_transactions sort_key_record_all example_state_def pp_entry_lines)

text \<open>
  Claim C8. For the dictionary built from the empty one by any sequence of calls of
  \<^verbatim>\<open>add_record\<close>, \<^verbatim>\<open>pp_transactions\<close> prints one message for each destination that was
  recorded, the destinations in increasing lexicographic order (character by character, by
  code point) and each one once; the message of a destination names the destination and
  then the file names recorded under it, in the order of the calls that recorded them.
\<close>

theorem report_sorted_in_record_order:
  "trace (pp_transactions (record_all calls []) st)
     = trace st @ map (\<lambda>d. Print (pp_entry (d, map snd (filter (\<lambda>c. fst c = d) calls))))
                      (sort (remdups (map fst calls)))
   \<and> sorted (sort (remdups (map fst calls)))
   \<and> distinct (sort (remdups (map fst calls)))
   \<and> set (sort (remdups (map fst calls))) = fst ` set calls
   \<and> pp_entry (d, files)
       = newline @ d @ '':'' @ concat (map (\<lambda>f. newline @ ''    '' @ f) files)"
  by (simp add: trace_pp_transactions sort_key_record_all pp_entry_lines o_def)

end
